theory Spec2Isabelle
  imports Complex_Main
begin

section \<open>Configuration (config.ts)\<close>

text \<open>
  JavaScript numbers are modelled as real numbers (exact arithmetic) and the
  millisecond clock \<^verbatim>\<open>Date.now()\<close> as an integer that every \<^verbatim>\<open>analyze\<close> call
  receives as an argument.  Rounding of IEEE doubles is not modelled.
\<close>

text \<open>\<^verbatim>\<open>CONFIG.thresholds\<close>\<close>

definition thresholds_eyeOpening :: real where "thresholds_eyeOpening = 0.03"
definition thresholds_mouthOpen :: real where "thresholds_mouthOpen = 0.025"
definition thresholds_squinting :: real where "thresholds_squinting = 0.018"
definition thresholds_smile :: real where "thresholds_smile = 0.012"
definition thresholds_browRaise :: real where "thresholds_browRaise = 0.01"
definition thresholds_winkRatio :: real where "thresholds_winkRatio = 0.6"
definition thresholds_puckerRatio :: real where "thresholds_puckerRatio = 0.25"
definition thresholds_sleepyThreshold :: real where "thresholds_sleepyThreshold = 0.018"

text \<open>\<^verbatim>\<open>CONFIG.transitions\<close>\<close>

definition transitions_holdTime :: int where "transitions_holdTime = 300"
definition transitions_debounce :: int where "transitions_debounce = 500"
definition transitions_historyLength :: nat where "transitions_historyLength = 10"

datatype ExpressionType =
  shock | scream | tongue | happy | sad | wink | glare | suspicious | sleepy
  | eyebrow | confused | pout | disgust | kissy | neutral

datatype GestureType =
  middleFinger | thumbsUp | thumbsDown | peace | ok | rockOn | wave | fist
  | pointing | none

section \<open>Landmarks\<close>

text \<open>
  \<^verbatim>\<open>interface Landmark { x: number; y: number; z?: number }\<close>.  The optional depth
  \<^verbatim>\<open>z\<close> is never read by the detectors and is left out.
\<close>

datatype Landmark = Landmark (lm_x: real) (lm_y: real)

text \<open>
  \<^verbatim>\<open>landmarks[idx]\<close>: reading an array beyond its length yields \<^verbatim>\<open>undefined\<close>,
  which the detectors test with \<^verbatim>\<open>!p\<close>.
\<close>

definition lmAt :: "Landmark list \<Rightarrow> nat \<Rightarrow> Landmark option" where
  "lmAt landmarks idx = (if idx < length landmarks then Some (landmarks ! idx) else None)"

text \<open>
  The record returned by both detectors: \<^verbatim>\<open>GestureResult\<close> (field \<^verbatim>\<open>gesture\<close>) and
  \<^verbatim>\<open>DetectionResult\<close> (field \<^verbatim>\<open>expression\<close>); the category field is \<open>category\<close>.
\<close>

record 'c Result =
  category :: 'c
  confidence :: real

section \<open>Temporal stabilisation shared by both detector classes\<close>

text \<open>
  The private fields of \<^verbatim>\<open>GestureDetector\<close> and \<^verbatim>\<open>ExpressionDetector\<close>.  The two
  classes declare the same five fields under different names:
  \<open>history\<close> is \<^verbatim>\<open>gestureHistory\<close> / \<^verbatim>\<open>expressionHistory\<close>,
  \<open>lastTime\<close> is \<^verbatim>\<open>lastGestureTime\<close> / \<^verbatim>\<open>lastExpressionTime\<close>,
  \<open>current\<close> is \<^verbatim>\<open>currentGesture\<close> / \<^verbatim>\<open>currentExpression\<close>,
  \<open>pending\<close> is \<^verbatim>\<open>pendingGesture\<close> / \<^verbatim>\<open>pendingExpression\<close> (\<open>None\<close> is \<^verbatim>\<open>null\<close>).
\<close>

record 'c Detector =
  history :: "'c list"
  lastTime :: int
  current :: 'c
  holdStartTime :: int
  pending :: "'c option"

text \<open>\<^verbatim>\<open>history.push(raw); if (history.length > transitions.historyLength) history.shift();\<close>\<close>

definition pushHistory :: "'c list \<Rightarrow> 'c \<Rightarrow> 'c list" where
  "pushHistory h raw =
     (let h' = h @ [raw] in if length h' > transitions_historyLength then tl h' else h')"

text \<open>
  \<^verbatim>\<open>counts[g] = (counts[g] || 0) + 1\<close> on an object whose keys are category names:
  \<^verbatim>\<open>Object.entries\<close> lists these keys in the order of their first insertion, so the
  counts are kept as an association list in that order.
\<close>

fun bump :: "'c \<Rightarrow> ('c \<times> nat) list \<Rightarrow> ('c \<times> nat) list" where
  "bump g [] = [(g, 1)]"
| "bump g ((k, n) # kvs) = (if k = g then (k, n + 1) # kvs else (k, n) # bump g kvs)"

definition counts :: "'c list \<Rightarrow> ('c \<times> nat) list" where
  "counts h = foldl (\<lambda>cs g. bump g cs) [] h"

text \<open>
  \<^verbatim>\<open>Object.entries(counts).sort((a, b) => b[1] - a[1])[0][0]\<close>: a stable sort by
  descending count (\<open>sort_key\<close> is a stable insertion sort), then the key of the
  first entry.  The history is never empty here, since a value was just pushed.
\<close>

definition smoothed :: "'c list \<Rightarrow> 'c" where
  "smoothed h = fst (hd (sort_key (\<lambda>e. - int (snd e)) (counts h)))"

text \<open>
  The part of \<^verbatim>\<open>analyze\<close> after the raw classification: history update, majority
  vote and the hold / debounce transition.  It is textually the same in both classes.
\<close>

definition stabilize :: "'c Detector \<Rightarrow> 'c \<Rightarrow> int \<Rightarrow> 'c Detector" where
  "stabilize d raw now =
     (let d1 = d\<lparr>history := pushHistory (history d) raw\<rparr>;
          sm = smoothed (history d1)
      in if sm \<noteq> current d1 then
           if pending d1 \<noteq> Some sm then d1\<lparr>pending := Some sm, holdStartTime := now\<rparr>
           else if now - holdStartTime d1 \<ge> transitions_holdTime then
             if now - lastTime d1 \<ge> transitions_debounce
             then d1\<lparr>current := sm, lastTime := now, pending := None\<rparr>
             else d1
           else d1
         else d1\<lparr>pending := None\<rparr>)"

text \<open>The \<^verbatim>\<open>for (const detect of detectors) { ...; if (result) { ...; break; } }\<close> loop.\<close>

fun firstMatch :: "('l \<Rightarrow> 'r option) list \<Rightarrow> 'l \<Rightarrow> 'r option" where
  "firstMatch [] l = None"
| "firstMatch (detect # detectors) l =
     (case detect l of Some result \<Rightarrow> Some result | None \<Rightarrow> firstMatch detectors l)"

section \<open>Hand gestures (gestures.ts)\<close>

text \<open>\<^verbatim>\<open>HAND_LANDMARKS\<close>\<close>

abbreviation (input) WRIST :: nat where "WRIST \<equiv> 0"
abbreviation (input) THUMB_MCP :: nat where "THUMB_MCP \<equiv> 2"
abbreviation (input) THUMB_IP :: nat where "THUMB_IP \<equiv> 3"
abbreviation (input) THUMB_TIP :: nat where "THUMB_TIP \<equiv> 4"
abbreviation (input) INDEX_MCP :: nat where "INDEX_MCP \<equiv> 5"
abbreviation (input) INDEX_PIP :: nat where "INDEX_PIP \<equiv> 6"
abbreviation (input) INDEX_TIP :: nat where "INDEX_TIP \<equiv> 8"
abbreviation (input) MIDDLE_MCP :: nat where "MIDDLE_MCP \<equiv> 9"
abbreviation (input) MIDDLE_PIP :: nat where "MIDDLE_PIP \<equiv> 10"
abbreviation (input) MIDDLE_TIP :: nat where "MIDDLE_TIP \<equiv> 12"
abbreviation (input) RING_MCP :: nat where "RING_MCP \<equiv> 13"
abbreviation (input) RING_PIP :: nat where "RING_PIP \<equiv> 14"
abbreviation (input) RING_TIP :: nat where "RING_TIP \<equiv> 16"
abbreviation (input) PINKY_MCP :: nat where "PINKY_MCP \<equiv> 17"
abbreviation (input) PINKY_PIP :: nat where "PINKY_PIP \<equiv> 18"
abbreviation (input) PINKY_TIP :: nat where "PINKY_TIP \<equiv> 20"

definition isFingerExtended :: "Landmark list \<Rightarrow> nat \<Rightarrow> nat \<Rightarrow> nat \<Rightarrow> bool" where
  "isFingerExtended landmarks tipIdx pipIdx mcpIdx =
     (case (lmAt landmarks tipIdx, lmAt landmarks pipIdx, lmAt landmarks mcpIdx) of
        (Some tip, Some pip, Some mcp) \<Rightarrow> lm_y tip < lm_y pip - 0.02
      | _ \<Rightarrow> False)"

text \<open>
  After the four presence tests the source reads \<^verbatim>\<open>landmarks[INDEX_MCP].x\<close> and
  \<^verbatim>\<open>landmarks[PINKY_MCP].x\<close> unguarded.  The function is called only from
  \<^verbatim>\<open>analyze\<close>, behind its length guard (at least 21 entries), where both indices
  are in range; it is not meant to be read for shorter lists.
\<close>

definition isThumbExtended :: "Landmark list \<Rightarrow> bool" where
  "isThumbExtended landmarks =
     (case (lmAt landmarks THUMB_TIP, lmAt landmarks THUMB_IP, lmAt landmarks THUMB_MCP,
            lmAt landmarks WRIST) of
        (Some tip, Some ip, Some mcp, Some wrist) \<Rightarrow>
          (let palmCenterX = (lm_x (landmarks ! INDEX_MCP) + lm_x (landmarks ! PINKY_MCP)) / 2
           in \<bar>lm_x tip - palmCenterX\<bar> > \<bar>lm_x mcp - palmCenterX\<bar> * 1.2)
      | _ \<Rightarrow> False)"

definition isThumbUp :: "Landmark list \<Rightarrow> bool" where
  "isThumbUp landmarks =
     (case (lmAt landmarks THUMB_TIP, lmAt landmarks THUMB_MCP, lmAt landmarks WRIST) of
        (Some tip, Some mcp, Some wrist) \<Rightarrow>
          lm_y tip < lm_y wrist - 0.1 \<and> isThumbExtended landmarks
      | _ \<Rightarrow> False)"

definition isThumbDown :: "Landmark list \<Rightarrow> bool" where
  "isThumbDown landmarks =
     (case (lmAt landmarks THUMB_TIP, lmAt landmarks WRIST) of
        (Some tip, Some wrist) \<Rightarrow>
          lm_y tip > lm_y wrist + 0.1 \<and> isThumbExtended landmarks
      | _ \<Rightarrow> False)"

record FingerStates =
  thumb :: bool
  index :: bool
  middle :: bool
  ring :: bool
  pinky :: bool

definition getFingerStates :: "Landmark list \<Rightarrow> FingerStates" where
  "getFingerStates landmarks =
     \<lparr> thumb = isThumbExtended landmarks,
       index = isFingerExtended landmarks INDEX_TIP INDEX_PIP INDEX_MCP,
       middle = isFingerExtended landmarks MIDDLE_TIP MIDDLE_PIP MIDDLE_MCP,
       ring = isFingerExtended landmarks RING_TIP RING_PIP RING_MCP,
       pinky = isFingerExtended landmarks PINKY_TIP PINKY_PIP PINKY_MCP \<rparr>"

definition detectMiddleFinger :: "Landmark list \<Rightarrow> GestureType Result option" where
  "detectMiddleFinger landmarks =
     (let fingers = getFingerStates landmarks
      in if middle fingers \<and> \<not> index fingers \<and> \<not> ring fingers \<and> \<not> pinky fingers
            \<and> \<not> thumb fingers
         then Some \<lparr>category = middleFinger, confidence = 0.9\<rparr> else None)"

definition detectPeace :: "Landmark list \<Rightarrow> GestureType Result option" where
  "detectPeace landmarks =
     (let fingers = getFingerStates landmarks
      in if index fingers \<and> middle fingers \<and> \<not> ring fingers \<and> \<not> pinky fingers
         then Some \<lparr>category = peace, confidence = 0.85\<rparr> else None)"

definition detectThumbsUp :: "Landmark list \<Rightarrow> GestureType Result option" where
  "detectThumbsUp landmarks =
     (let fingers = getFingerStates landmarks
      in if isThumbUp landmarks \<and> \<not> index fingers \<and> \<not> middle fingers \<and> \<not> ring fingers
            \<and> \<not> pinky fingers
         then Some \<lparr>category = thumbsUp, confidence = 0.9\<rparr> else None)"

definition detectThumbsDown :: "Landmark list \<Rightarrow> GestureType Result option" where
  "detectThumbsDown landmarks =
     (let fingers = getFingerStates landmarks
      in if isThumbDown landmarks \<and> \<not> index fingers \<and> \<not> middle fingers \<and> \<not> ring fingers
            \<and> \<not> pinky fingers
         then Some \<lparr>category = thumbsDown, confidence = 0.9\<rparr> else None)"

definition detectOK :: "Landmark list \<Rightarrow> GestureType Result option" where
  "detectOK landmarks =
     (let fingers = getFingerStates landmarks
      in case (lmAt landmarks THUMB_TIP, lmAt landmarks INDEX_TIP) of
           (Some thumbTip, Some indexTip) \<Rightarrow>
             (let distance = sqrt ((lm_x thumbTip - lm_x indexTip)\<^sup>2
                                   + (lm_y thumbTip - lm_y indexTip)\<^sup>2)
              in if distance < 0.05 \<and> middle fingers \<and> ring fingers \<and> pinky fingers
                 then Some \<lparr>category = ok, confidence = 0.85\<rparr> else None)
         | _ \<Rightarrow> None)"

definition detectRockOn :: "Landmark list \<Rightarrow> GestureType Result option" where
  "detectRockOn landmarks =
     (let fingers = getFingerStates landmarks
      in if index fingers \<and> pinky fingers \<and> \<not> middle fingers \<and> \<not> ring fingers
         then Some \<lparr>category = rockOn, confidence = 0.85\<rparr> else None)"

definition detectWave :: "Landmark list \<Rightarrow> GestureType Result option" where
  "detectWave landmarks =
     (let fingers = getFingerStates landmarks
      in if thumb fingers \<and> index fingers \<and> middle fingers \<and> ring fingers \<and> pinky fingers
         then Some \<lparr>category = wave, confidence = 0.8\<rparr> else None)"

definition detectFist :: "Landmark list \<Rightarrow> GestureType Result option" where
  "detectFist landmarks =
     (let fingers = getFingerStates landmarks
      in if \<not> thumb fingers \<and> \<not> index fingers \<and> \<not> middle fingers \<and> \<not> ring fingers
            \<and> \<not> pinky fingers
         then Some \<lparr>category = fist, confidence = 0.8\<rparr> else None)"

definition detectPointing :: "Landmark list \<Rightarrow> GestureType Result option" where
  "detectPointing landmarks =
     (let fingers = getFingerStates landmarks
      in if index fingers \<and> \<not> middle fingers \<and> \<not> ring fingers \<and> \<not> pinky fingers
         then Some \<lparr>category = pointing, confidence = 0.85\<rparr> else None)"

text \<open>The \<^verbatim>\<open>detectors\<close> array of \<^verbatim>\<open>GestureDetector.analyze\<close>, in its order.\<close>

definition gestureDetectors :: "(Landmark list \<Rightarrow> GestureType Result option) list" where
  "gestureDetectors =
     [detectMiddleFinger, detectThumbsUp, detectThumbsDown, detectPeace, detectOK,
      detectRockOn, detectPointing, detectWave, detectFist]"

text \<open>
  \<^verbatim>\<open>rawGesture\<close> and \<^verbatim>\<open>rawConfidence\<close> after the loop: initialised to
  \<^verbatim>\<open>'none'\<close> and \<^verbatim>\<open>0\<close>, overwritten by the first detector that returns a result.
\<close>

definition rawGesture :: "Landmark list \<Rightarrow> GestureType Result" where
  "rawGesture landmarks =
     (case firstMatch gestureDetectors landmarks of
        Some result \<Rightarrow> \<lparr>category = category result, confidence = confidence result\<rparr>
      | None \<Rightarrow> \<lparr>category = none, confidence = 0\<rparr>)"

text \<open>
  \<^verbatim>\<open>GestureDetector.analyze\<close>, with the clock reading \<open>now\<close> as an argument.  The
  detector object is passed in and returned with the result.  (The \<^verbatim>\<open>!landmarks\<close>
  half of the guard concerns \<^verbatim>\<open>null\<close>, which the parameter type excludes.)
\<close>

definition GestureDetector_analyze ::
  "GestureType Detector \<Rightarrow> Landmark list \<Rightarrow> int \<Rightarrow> GestureType Detector \<times> GestureType Result"
where
  "GestureDetector_analyze d landmarks now =
     (if length landmarks < 21 then (d, \<lparr>category = none, confidence = 0\<rparr>)
      else
        let raw = rawGesture landmarks;
            d' = stabilize d (category raw) now
        in (d', \<lparr>category = current d', confidence = confidence raw\<rparr>))"

text \<open>A newly constructed \<^verbatim>\<open>GestureDetector\<close> (the field initialisers).\<close>

definition GestureDetector_new :: "GestureType Detector" where
  "GestureDetector_new =
     \<lparr>history = [], lastTime = 0, current = none, holdStartTime = 0, pending = None\<rparr>"

definition GestureDetector_reset :: "GestureType Detector \<Rightarrow> GestureType Detector" where
  "GestureDetector_reset d =
     d\<lparr>history := [], current := none, pending := None, holdStartTime := 0, lastTime := 0\<rparr>"

section \<open>Facial expressions (detection.ts)\<close>

text \<open>\<^verbatim>\<open>LANDMARKS\<close>\<close>

abbreviation (input) LEFT_EYE_TOP :: nat where "LEFT_EYE_TOP \<equiv> 159"
abbreviation (input) LEFT_EYE_BOTTOM :: nat where "LEFT_EYE_BOTTOM \<equiv> 145"
abbreviation (input) RIGHT_EYE_TOP :: nat where "RIGHT_EYE_TOP \<equiv> 386"
abbreviation (input) RIGHT_EYE_BOTTOM :: nat where "RIGHT_EYE_BOTTOM \<equiv> 374"
abbreviation (input) LEFT_BROW_TOP :: nat where "LEFT_BROW_TOP \<equiv> 63"
abbreviation (input) RIGHT_BROW_TOP :: nat where "RIGHT_BROW_TOP \<equiv> 293"
abbreviation (input) UPPER_LIP_TOP :: nat where "UPPER_LIP_TOP \<equiv> 13"
abbreviation (input) LOWER_LIP_BOTTOM :: nat where "LOWER_LIP_BOTTOM \<equiv> 14"
abbreviation (input) MOUTH_LEFT :: nat where "MOUTH_LEFT \<equiv> 61"
abbreviation (input) MOUTH_RIGHT :: nat where "MOUTH_RIGHT \<equiv> 291"
abbreviation (input) LOWER_LIP_CENTER :: nat where "LOWER_LIP_CENTER \<equiv> 17"
abbreviation (input) NOSE_TIP :: nat where "NOSE_TIP \<equiv> 4"
abbreviation (input) CHIN :: nat where "CHIN \<equiv> 152"

definition getDistance :: "Landmark list \<Rightarrow> nat \<Rightarrow> nat \<Rightarrow> real" where
  "getDistance landmarks idx1 idx2 =
     (case (lmAt landmarks idx1, lmAt landmarks idx2) of
        (Some p1, Some p2) \<Rightarrow> sqrt ((lm_x p2 - lm_x p1)\<^sup>2 + (lm_y p2 - lm_y p1)\<^sup>2)
      | _ \<Rightarrow> 0)"

definition getEyeOpening :: "Landmark list \<Rightarrow> real" where
  "getEyeOpening landmarks =
     (let leftEyeOpen = getDistance landmarks LEFT_EYE_TOP LEFT_EYE_BOTTOM;
          rightEyeOpen = getDistance landmarks RIGHT_EYE_TOP RIGHT_EYE_BOTTOM
      in (leftEyeOpen + rightEyeOpen) / 2)"

text \<open>The object \<^verbatim>\<open>{ left, right }\<close> is the pair \<open>(left, right)\<close>.\<close>

definition getIndividualEyeOpenings :: "Landmark list \<Rightarrow> real \<times> real" where
  "getIndividualEyeOpenings landmarks =
     (getDistance landmarks LEFT_EYE_TOP LEFT_EYE_BOTTOM,
      getDistance landmarks RIGHT_EYE_TOP RIGHT_EYE_BOTTOM)"

definition getMouthOpening :: "Landmark list \<Rightarrow> real" where
  "getMouthOpening landmarks = getDistance landmarks UPPER_LIP_TOP LOWER_LIP_BOTTOM"

definition getMouthWidth :: "Landmark list \<Rightarrow> real" where
  "getMouthWidth landmarks = getDistance landmarks MOUTH_LEFT MOUTH_RIGHT"

definition getSmileRatio :: "Landmark list \<Rightarrow> real" where
  "getSmileRatio landmarks =
     (case (lmAt landmarks MOUTH_LEFT, lmAt landmarks MOUTH_RIGHT, lmAt landmarks UPPER_LIP_TOP) of
        (Some leftCorner, Some rightCorner, Some upperLip) \<Rightarrow>
          (let cornerHeight = (lm_y leftCorner + lm_y rightCorner) / 2
           in lm_y upperLip - cornerHeight)
      | _ \<Rightarrow> 0)"

definition getEyebrowHeight :: "Landmark list \<Rightarrow> real" where
  "getEyebrowHeight landmarks =
     (case (lmAt landmarks LEFT_BROW_TOP, lmAt landmarks RIGHT_BROW_TOP,
            lmAt landmarks LEFT_EYE_TOP, lmAt landmarks RIGHT_EYE_TOP) of
        (Some leftBrow, Some rightBrow, Some leftEye, Some rightEye) \<Rightarrow>
          (let leftHeight = lm_y leftEye - lm_y leftBrow;
               rightHeight = lm_y rightEye - lm_y rightBrow
           in (leftHeight + rightHeight) / 2)
      | _ \<Rightarrow> 0)"

definition getMouthPuckerRatio :: "Landmark list \<Rightarrow> real" where
  "getMouthPuckerRatio landmarks =
     (let height = getMouthOpening landmarks;
          width = getMouthWidth landmarks
      in if width > 0 then height / width else 0)"

definition detectScream :: "Landmark list \<Rightarrow> ExpressionType Result option" where
  "detectScream landmarks =
     (let eyeOpening = getEyeOpening landmarks;
          mouthOpen = getMouthOpening landmarks;
          browHeight = getEyebrowHeight landmarks
      in if eyeOpening > thresholds_eyeOpening * 0.9
            \<and> mouthOpen > thresholds_mouthOpen * 2.5
            \<and> browHeight > thresholds_browRaise
         then let conf = (mouthOpen / (thresholds_mouthOpen * 2.5)
                           + eyeOpening / thresholds_eyeOpening) / 2
              in Some \<lparr>category = scream, confidence = min conf 1\<rparr>
         else None)"

definition detectShock :: "Landmark list \<Rightarrow> ExpressionType Result option" where
  "detectShock landmarks =
     (let eyeOpening = getEyeOpening landmarks;
          mouthOpen = getMouthOpening landmarks;
          browHeight = getEyebrowHeight landmarks
      in if eyeOpening > thresholds_eyeOpening
            \<and> mouthOpen < thresholds_mouthOpen * 2
            \<and> browHeight > thresholds_browRaise * 0.8
         then Some \<lparr>category = shock, confidence = min (eyeOpening / thresholds_eyeOpening) 1\<rparr>
         else None)"

definition detectTongue :: "Landmark list \<Rightarrow> ExpressionType Result option" where
  "detectTongue landmarks =
     (let mouthOpen = getMouthOpening landmarks;
          eyeOpening = getEyeOpening landmarks
      in if mouthOpen > thresholds_mouthOpen \<and> eyeOpening < thresholds_eyeOpening * 1.5
         then Some \<lparr>category = tongue, confidence = min (mouthOpen / thresholds_mouthOpen) 1\<rparr>
         else None)"

definition detectKissy :: "Landmark list \<Rightarrow> ExpressionType Result option" where
  "detectKissy landmarks =
     (let puckerRatio = getMouthPuckerRatio landmarks;
          mouthWidth = getMouthWidth landmarks
      in if puckerRatio > thresholds_puckerRatio \<and> mouthWidth < 0.08
         then Some \<lparr>category = kissy, confidence = min (puckerRatio / 0.5) 1\<rparr>
         else None)"

definition detectHappy :: "Landmark list \<Rightarrow> ExpressionType Result option" where
  "detectHappy landmarks =
     (let smileRatio = getSmileRatio landmarks;
          mouthOpen = getMouthOpening landmarks
      in if smileRatio > thresholds_smile \<and> mouthOpen < thresholds_mouthOpen * 1.5
         then Some \<lparr>category = happy, confidence = min (smileRatio / thresholds_smile) 1\<rparr>
         else None)"

definition detectSad :: "Landmark list \<Rightarrow> ExpressionType Result option" where
  "detectSad landmarks =
     (let smileRatio = getSmileRatio landmarks;
          browHeight = getEyebrowHeight landmarks
      in if smileRatio < - thresholds_smile * 0.5 \<and> browHeight < thresholds_browRaise * 0.5
         then Some \<lparr>category = sad, confidence = min (\<bar>smileRatio\<bar> / thresholds_smile) 1\<rparr>
         else None)"

text \<open>
  \<^verbatim>\<open>Math.min(l, r) / Math.max(l, r)\<close> of two distances (both non-negative): when the
  larger one is 0 the quotient is \<^verbatim>\<open>0 / 0 = NaN\<close>, every comparison with it is false
  and the detector returns \<^verbatim>\<open>null\<close>.  That case is written out, since division by
  zero is 0 in HOL.
\<close>

definition detectWink :: "Landmark list \<Rightarrow> ExpressionType Result option" where
  "detectWink landmarks =
     (let (left, right) = getIndividualEyeOpenings landmarks
      in if max left right = 0 then None
         else let ratio = min left right / max left right
              in if ratio < thresholds_winkRatio \<and> max left right > 0.015
                 then Some \<lparr>category = wink, confidence = 1 - ratio\<rparr>
                 else None)"

definition detectGlare :: "Landmark list \<Rightarrow> ExpressionType Result option" where
  "detectGlare landmarks =
     (let eyeOpening = getEyeOpening landmarks;
          smileRatio = getSmileRatio landmarks
      in if eyeOpening < thresholds_squinting \<and> smileRatio < thresholds_smile * 0.5
         then Some \<lparr>category = glare, confidence = 1 - (eyeOpening / thresholds_squinting)\<rparr>
         else None)"

definition detectSuspicious :: "Landmark list \<Rightarrow> ExpressionType Result option" where
  "detectSuspicious landmarks =
     (let (left, right) = getIndividualEyeOpenings landmarks
      in if max left right = 0 then None
         else let eyeRatio = min left right / max left right
              in if eyeRatio < 0.8 \<and> eyeRatio > thresholds_winkRatio
                 then Some \<lparr>category = suspicious, confidence = 0.8 - eyeRatio\<rparr>
                 else None)"

definition detectSleepy :: "Landmark list \<Rightarrow> ExpressionType Result option" where
  "detectSleepy landmarks =
     (let eyeOpening = getEyeOpening landmarks;
          mouthOpen = getMouthOpening landmarks
      in if eyeOpening < thresholds_sleepyThreshold
            \<and> eyeOpening > 0.008
            \<and> mouthOpen < thresholds_mouthOpen
         then Some \<lparr>category = sleepy,
                    confidence = 1 - (eyeOpening / thresholds_sleepyThreshold)\<rparr>
         else None)"

definition detectEyebrowRaise :: "Landmark list \<Rightarrow> ExpressionType Result option" where
  "detectEyebrowRaise landmarks =
     (let browHeight = getEyebrowHeight landmarks;
          eyeOpening = getEyeOpening landmarks
      in if browHeight > thresholds_browRaise * 1.5 \<and> eyeOpening < thresholds_eyeOpening
         then Some \<lparr>category = eyebrow,
                    confidence = min (browHeight / (thresholds_browRaise * 1.5)) 1\<rparr>
         else None)"

definition detectPout :: "Landmark list \<Rightarrow> ExpressionType Result option" where
  "detectPout landmarks =
     (let mouthOpen = getMouthOpening landmarks
      in case (lmAt landmarks LOWER_LIP_CENTER, lmAt landmarks CHIN) of
           (Some lowerLip, Some chin) \<Rightarrow>
             (let lipProtrusion = lm_y chin - lm_y lowerLip
              in if lipProtrusion > 0.06 \<and> mouthOpen < thresholds_mouthOpen * 0.8
                 then Some \<lparr>category = pout, confidence = min (lipProtrusion / 0.08) 1\<rparr>
                 else None)
         | _ \<Rightarrow> None)"

definition detectDisgust :: "Landmark list \<Rightarrow> ExpressionType Result option" where
  "detectDisgust landmarks =
     (let eyeOpening = getEyeOpening landmarks
      in case (lmAt landmarks UPPER_LIP_TOP, lmAt landmarks NOSE_TIP) of
           (Some upperLip, Some nose) \<Rightarrow>
             (let lipNoseDistance = lm_y upperLip - lm_y nose
              in if lipNoseDistance < 0.025 \<and> eyeOpening < thresholds_eyeOpening * 0.8
                 then Some \<lparr>category = disgust, confidence = 1 - (lipNoseDistance / 0.03)\<rparr>
                 else None)
         | _ \<Rightarrow> None)"

definition detectConfused :: "Landmark list \<Rightarrow> ExpressionType Result option" where
  "detectConfused landmarks =
     (let browHeight = getEyebrowHeight landmarks;
          mouthOpen = getMouthOpening landmarks
      in if mouthOpen > thresholds_mouthOpen * 0.3
            \<and> mouthOpen < thresholds_mouthOpen * 0.8
            \<and> browHeight > thresholds_browRaise * 0.5
         then Some \<lparr>category = confused, confidence = 0.6\<rparr>
         else None)"

text \<open>The \<^verbatim>\<open>detectors\<close> array of \<^verbatim>\<open>ExpressionDetector.analyze\<close>, in its order.\<close>

definition expressionDetectors :: "(Landmark list \<Rightarrow> ExpressionType Result option) list" where
  "expressionDetectors =
     [detectScream, detectShock, detectTongue, detectKissy, detectHappy, detectWink,
      detectSad, detectGlare, detectSuspicious, detectSleepy, detectEyebrowRaise,
      detectPout, detectDisgust, detectConfused]"

definition rawExpression :: "Landmark list \<Rightarrow> ExpressionType Result" where
  "rawExpression landmarks =
     (case firstMatch expressionDetectors landmarks of
        Some result \<Rightarrow> \<lparr>category = category result, confidence = confidence result\<rparr>
      | None \<Rightarrow> \<lparr>category = neutral, confidence = 0\<rparr>)"

text \<open>\<^verbatim>\<open>ExpressionDetector.analyze\<close>; its length guard is \<^verbatim>\<open>landmarks.length < 468\<close>.\<close>

definition ExpressionDetector_analyze ::
  "ExpressionType Detector \<Rightarrow> Landmark list \<Rightarrow> int
     \<Rightarrow> ExpressionType Detector \<times> ExpressionType Result"
where
  "ExpressionDetector_analyze d landmarks now =
     (if length landmarks < 468 then (d, \<lparr>category = neutral, confidence = 0\<rparr>)
      else
        let raw = rawExpression landmarks;
            d' = stabilize d (category raw) now
        in (d', \<lparr>category = current d', confidence = confidence raw\<rparr>))"

definition ExpressionDetector_new :: "ExpressionType Detector" where
  "ExpressionDetector_new =
     \<lparr>history = [], lastTime = 0, current = neutral, holdStartTime = 0, pending = None\<rparr>"

definition ExpressionDetector_reset :: "ExpressionType Detector \<Rightarrow> ExpressionType Detector" where
  "ExpressionDetector_reset d =
     d\<lparr>history := [], current := neutral, pending := None, holdStartTime := 0, lastTime := 0\<rparr>"

section \<open>Sequences of calls\<close>

text \<open>
  A frame is a landmark set together with the clock reading of the call that
  analyses it.  \<open>\<dots>_run\<close> makes the calls in order on one detector object and
  returns its final state; \<open>\<dots>_results\<close> collects what the calls return.
\<close>

type_synonym Frame = "Landmark list \<times> int"

definition GestureDetector_step :: "GestureType Detector \<Rightarrow> Frame \<Rightarrow> GestureType Detector" where
  "GestureDetector_step d f = fst (GestureDetector_analyze d (fst f) (snd f))"

definition GestureDetector_run :: "GestureType Detector \<Rightarrow> Frame list \<Rightarrow> GestureType Detector" where
  "GestureDetector_run d fs = foldl GestureDetector_step d fs"

fun GestureDetector_results :: "GestureType Detector \<Rightarrow> Frame list \<Rightarrow> GestureType Result list" where
  "GestureDetector_results d [] = []"
| "GestureDetector_results d (f # fs) =
     snd (GestureDetector_analyze d (fst f) (snd f))
       # GestureDetector_results (GestureDetector_step d f) fs"

definition ExpressionDetector_step ::
  "ExpressionType Detector \<Rightarrow> Frame \<Rightarrow> ExpressionType Detector" where
  "ExpressionDetector_step d f = fst (ExpressionDetector_analyze d (fst f) (snd f))"

definition ExpressionDetector_run ::
  "ExpressionType Detector \<Rightarrow> Frame list \<Rightarrow> ExpressionType Detector" where
  "ExpressionDetector_run d fs = foldl ExpressionDetector_step d fs"

fun ExpressionDetector_results ::
  "ExpressionType Detector \<Rightarrow> Frame list \<Rightarrow> ExpressionType Result list" where
  "ExpressionDetector_results d [] = []"
| "ExpressionDetector_results d (f # fs) =
     snd (ExpressionDetector_analyze d (fst f) (snd f))
       # ExpressionDetector_results (ExpressionDetector_step d f) fs"

text \<open>
  The detector as call number \<open>k\<close> (counting from 0) of a sequence of calls finds it,
  when the sequence starts on a newly constructed detector; with \<open>Suc k\<close>, the
  detector as that call leaves it.
\<close>

definition GestureDetector_before :: "Frame list \<Rightarrow> nat \<Rightarrow> GestureType Detector" where
  "GestureDetector_before fs k = GestureDetector_run GestureDetector_new (take k fs)"

definition ExpressionDetector_before :: "Frame list \<Rightarrow> nat \<Rightarrow> ExpressionType Detector" where
  "ExpressionDetector_before fs k = ExpressionDetector_run ExpressionDetector_new (take k fs)"

text \<open>
  The state update of either \<^verbatim>\<open>analyze\<close> in one form, for the proofs about both
  classes: \<open>None\<close> stands for a landmark set below the length guard, \<open>Some raw\<close> for
  a frame with raw category \<open>raw\<close>.
\<close>

definition stabStep :: "'c Detector \<Rightarrow> 'c option \<Rightarrow> int \<Rightarrow> 'c Detector" where
  "stabStep d r now = (case r of None \<Rightarrow> d | Some raw \<Rightarrow> stabilize d raw now)"

text \<open>
  Frames for the scenarios: the landmark sets \<open>ls\<close> in order, the first at time
  \<open>t0\<close> and each next one \<open>dt\<close> milliseconds later; and \<open>n\<close> values that
  alternate between \<open>a\<close> and \<open>b\<close>, starting with \<open>a\<close>.
\<close>

definition spacedFrames :: "int \<Rightarrow> int \<Rightarrow> Landmark list list \<Rightarrow> Frame list" where
  "spacedFrames t0 dt ls = map (\<lambda>i. (ls ! i, t0 + dt * int i)) [0..<length ls]"

definition alternating :: "'a \<Rightarrow> 'a \<Rightarrow> nat \<Rightarrow> 'a list" where
  "alternating a b n = map (\<lambda>i. if even i then a else b) [0..<n]"

section \<open>Meme pool (memePool.ts)\<close>

definition RECENT_HISTORY_SIZE :: nat where "RECENT_HISTORY_SIZE = 3"

text \<open>
  \<^verbatim>\<open>Math.floor(Math.random() * n)\<close>, with the value \<open>u\<close> drawn by \<^verbatim>\<open>Math.random()\<close>
  (a number with \<open>0 \<le> u < 1\<close>) as an argument.
\<close>

definition randomIndex :: "real \<Rightarrow> nat \<Rightarrow> nat" where
  "randomIndex u n = nat \<lfloor>u * real n\<rfloor>"

text \<open>
  \<^verbatim>\<open>getRandomMeme\<close>.  The module-level object \<^verbatim>\<open>memePool\<close> (read only here) and
  the map \<^verbatim>\<open>recentMemes\<close> are arguments; the call returns its result, \<open>None\<close> for
  \<^verbatim>\<open>null\<close>, and the updated \<^verbatim>\<open>recentMemes\<close>.  \<open>u\<close> is the one number the call
  draws from \<^verbatim>\<open>Math.random()\<close>.  A key that \<^verbatim>\<open>memePool\<close> does not have reads as
  \<^verbatim>\<open>undefined\<close>, here \<open>None\<close>.  \<open>recentBuffer\<close> is \<^verbatim>\<open>recentMemes.get(type) || []\<close>.
\<close>

definition recentBuffer :: "(string \<rightharpoonup> string list) \<Rightarrow> string \<Rightarrow> string list" where
  "recentBuffer recentMemes type = (case recentMemes type of Some r \<Rightarrow> r | None \<Rightarrow> [])"

definition getRandomMeme ::
  "(string \<rightharpoonup> string list) \<Rightarrow> (string \<rightharpoonup> string list) \<Rightarrow> string \<Rightarrow> real
     \<Rightarrow> string option \<times> (string \<rightharpoonup> string list)"
where
  "getRandomMeme memePool recentMemes type u =
     (let pool = memePool type
      in if pool = None \<or> length (the pool) = 0 then
           (let neutralPool = memePool ''neutral''
            in if neutralPool \<noteq> None \<and> length (the neutralPool) > 0
               then (Some (the neutralPool ! randomIndex u (length (the neutralPool))),
                     recentMemes)
               else (None, recentMemes))
         else
           (let pool = the pool;
                recent = recentBuffer recentMemes type;
                available = filter (\<lambda>m. m \<notin> set recent) pool;
                available = (if length available = 0 then pool else available);
                selected = available ! randomIndex u (length available);
                recent = recent @ [selected];
                recent = (if length recent > RECENT_HISTORY_SIZE then tl recent else recent)
            in (Some selected, recentMemes(type \<mapsto> recent))))"

text \<open>
  A sequence of \<^verbatim>\<open>getRandomMeme\<close> calls: each call is its argument and the number
  it draws; the results are collected in order.
\<close>

fun getRandomMeme_results ::
  "(string \<rightharpoonup> string list) \<Rightarrow> (string \<rightharpoonup> string list) \<Rightarrow> (string \<times> real) list
     \<Rightarrow> string option list"
where
  "getRandomMeme_results memePool recentMemes [] = []"
| "getRandomMeme_results memePool recentMemes ((type, u) # calls) =
     fst (getRandomMeme memePool recentMemes type u)
       # getRandomMeme_results memePool (snd (getRandomMeme memePool recentMemes type u)) calls"

fun getRandomMeme_recent ::
  "(string \<rightharpoonup> string list) \<Rightarrow> (string \<rightharpoonup> string list) \<Rightarrow> (string \<times> real) list
     \<Rightarrow> (string \<rightharpoonup> string list)"
where
  "getRandomMeme_recent memePool recentMemes [] = recentMemes"
| "getRandomMeme_recent memePool recentMemes ((type, u) # calls) =
     getRandomMeme_recent memePool (snd (getRandomMeme memePool recentMemes type u)) calls"

text \<open>
  The results of those calls of a sequence that ask for the category \<open>type\<close>, in
  order.
\<close>

definition getRandomMeme_picks ::
  "(string \<rightharpoonup> string list) \<Rightarrow> (string \<rightharpoonup> string list) \<Rightarrow> string
     \<Rightarrow> (string \<times> real) list \<Rightarrow> string option list"
where
  "getRandomMeme_picks memePool recentMemes type calls =
     map snd (filter (\<lambda>cr. fst (fst cr) = type)
                (zip calls (getRandomMeme_results memePool recentMemes calls)))"

section \<open>Example inputs\<close>

text \<open>
  \<open>createBaseLandmarks n\<close> is \<open>n\<close> landmarks at \<open>(0.5, 0.5)\<close>, as the helpers of the
  repository's tests build them; the other landmark sets move a few of these points.
\<close>

definition createBaseLandmarks :: "nat \<Rightarrow> Landmark list" where
  "createBaseLandmarks n = replicate n (Landmark 0.5 0.5)"

definition glareFace :: "Landmark list" where
  "glareFace = createBaseLandmarks 468"

definition disgustFace :: "Landmark list" where
  "disgustFace = (createBaseLandmarks 468)
     [LEFT_EYE_BOTTOM := Landmark 0.5 0.52, RIGHT_EYE_BOTTOM := Landmark 0.5 0.52,
      NOSE_TIP := Landmark 0.5 0.7]"

definition fistHand :: "Landmark list" where
  "fistHand = createBaseLandmarks 21"

definition peaceHand :: "Landmark list" where
  "peaceHand = (createBaseLandmarks 21)
     [INDEX_TIP := Landmark 0.5 0.4, MIDDLE_TIP := Landmark 0.5 0.4]"

definition okWaveHand :: "Landmark list" where
  "okWaveHand = (createBaseLandmarks 21)
     [THUMB_TIP := Landmark 0.52 0.4, INDEX_TIP := Landmark 0.5 0.4, MIDDLE_TIP := Landmark 0.5 0.4,
      RING_TIP := Landmark 0.5 0.4, PINKY_TIP := Landmark 0.5 0.4]"

definition emptyHappyPool :: "string \<rightharpoonup> string list" where
  "emptyHappyPool = [''happy'' \<mapsto> [], ''neutral'' \<mapsto> [''larry.png'', ''calm.png'']]"

definition doubledPool :: "string \<rightharpoonup> string list" where
  "doubledPool = [''happy'' \<mapsto> [''a.png'', ''b.png'', ''a.png'', ''b.png'']]"

definition fourPool :: "string \<rightharpoonup> string list" where
  "fourPool = [''happy'' \<mapsto> [''a.png'', ''b.png'', ''c.png'', ''d.png'']]"

definition emptyPool :: "string \<rightharpoonup> string list" where
  "emptyPool = [''happy'' \<mapsto> [], ''neutral'' \<mapsto> []]"

text \<open>
  Clock readings of 20 frames: one every 33 ms, and at 30 frames per second (one every
  33 1/3 ms, rounded to the millisecond).
\<close>

definition every33ms :: "int list" where
  "every33ms = [1000, 1033, 1066, 1099, 1132, 1165, 1198, 1231, 1264, 1297,
      1330, 1363, 1396, 1429, 1462, 1495, 1528, 1561, 1594, 1627]"

definition thirtyFps :: "int list" where
  "thirtyFps = [1000, 1033, 1067, 1100, 1133, 1167, 1200, 1233, 1267, 1300,
      1333, 1367, 1400, 1433, 1467, 1500, 1533, 1567, 1600, 1633]"

text \<open>
  Eleven frames of \<open>fistHand\<close> followed by sixteen of \<open>peaceHand\<close>, and eleven
  frames of \<open>glareFace\<close>, 33 ms apart from time 1000.
\<close>

definition fistThenPeace :: "Frame list" where
  "fistThenPeace = spacedFrames 1000 33 (replicate 11 fistHand @ replicate 16 peaceHand)"

definition glareFrames :: "Frame list" where
  "glareFrames = spacedFrames 1000 33 (replicate 11 glareFace)"

section \<open>Unfolding rules\<close>

lemmas thresholds_defs =
  thresholds_eyeOpening_def thresholds_mouthOpen_def thresholds_squinting_def
  thresholds_smile_def thresholds_browRaise_def thresholds_winkRatio_def
  thresholds_puckerRatio_def thresholds_sleepyThreshold_def

lemmas transitions_defs =
  transitions_holdTime_def transitions_debounce_def transitions_historyLength_def

lemmas face_defs =
  getDistance_def getEyeOpening_def getIndividualEyeOpenings_def getMouthOpening_def
  getMouthWidth_def getSmileRatio_def getEyebrowHeight_def getMouthPuckerRatio_def lmAt_def
  thresholds_defs

lemmas expression_detector_defs =
  detectScream_def detectShock_def detectTongue_def detectKissy_def detectHappy_def
  detectWink_def detectSad_def detectGlare_def detectSuspicious_def detectSleepy_def
  detectEyebrowRaise_def detectPout_def detectDisgust_def detectConfused_def

lemmas hand_defs =
  getFingerStates_def isFingerExtended_def isThumbExtended_def isThumbUp_def isThumbDown_def
  lmAt_def

lemmas gesture_detector_defs =
  detectMiddleFinger_def detectThumbsUp_def detectThumbsDown_def detectPeace_def detectOK_def
  detectRockOn_def detectPointing_def detectWave_def detectFist_def

lemma firstMatch_first:
  "i < length ds \<Longrightarrow> (ds ! i) l = Some r \<Longrightarrow> (\<And>j. j < i \<Longrightarrow> (ds ! j) l = None)
     \<Longrightarrow> firstMatch ds l = Some r"
proof (induction ds arbitrary: i)
  case Nil
  then show ?case by simp
next
  case (Cons d ds)
  show ?case
  proof (cases i)
    case 0
    with Cons.prems(2) show ?thesis by simp
  next
    case (Suc k)
    have d: "d l = None" using Cons.prems(3) [of 0] Suc by simp
    have "firstMatch ds l = Some r"
    proof (rule Cons.IH [of k])
      show "k < length ds" using Cons.prems(1) Suc by simp
      show "(ds ! k) l = Some r" using Cons.prems(2) Suc by simp
      show "(ds ! j) l = None" if "j < k" for j
        using Cons.prems(3) [of "Suc j"] that Suc by simp
    qed
    with d show ?thesis by simp
  qed
qed

lemma firstMatch_none:
  "(\<And>j. j < length ds \<Longrightarrow> (ds ! j) l = None) \<Longrightarrow> firstMatch ds l = None"
proof (induction ds)
  case Nil
  then show ?case by simp
next
  case (Cons d ds)
  have "d l = None" using Cons.prems [of 0] by simp
  moreover have "firstMatch ds l = None"
    using Cons.prems [of "Suc j" for j] by (intro Cons.IH) simp
  ultimately show ?case by simp
qed

lemma expression_categories:
  "list_all2 (\<lambda>detect c. \<forall>l r. detect l = Some r \<longrightarrow> category r = c) expressionDetectors
     [scream, shock, tongue, kissy, happy, wink, sad, glare, suspicious, sleepy, eyebrow, pout,
      disgust, confused]"
  unfolding expressionDetectors_def
  by (auto simp: expression_detector_defs Let_def split: if_splits option.splits prod.splits)

lemma gesture_categories:
  "list_all2 (\<lambda>detect c. \<forall>l r. detect l = Some r \<longrightarrow> category r = c) gestureDetectors
     [middleFinger, thumbsUp, thumbsDown, peace, ok, rockOn, pointing, wave, fist]"
  unfolding gestureDetectors_def
  by (auto simp: gesture_detector_defs Let_def split: if_splits option.splits prod.splits)

section \<open>Priority order of the rules\<close>

text \<open>
  Claim C5.  The raw per-frame classification is the result of the first detector, in
  the order scream, shock, tongue, kissy, happy, wink, sad, glare, suspicious, sleepy,
  eyebrow, pout, disgust, confused (expressions) and middleFinger, thumbsUp, thumbsDown,
  peace, ok, rockOn, pointing, wave, fist (gestures), whose rule holds; it carries that
  rule's category, whatever the later detectors would return.  When no rule holds, the
  raw result is the default category with confidence 0.
\<close>

theorem priority_order:
  "(i < length expressionDetectors \<and> (expressionDetectors ! i) face = Some r
      \<and> (\<forall>j<i. (expressionDetectors ! j) face = None)
    \<longrightarrow> rawExpression face = r
        \<and> category r = [scream, shock, tongue, kissy, happy, wink, sad, glare, suspicious,
                         sleepy, eyebrow, pout, disgust, confused] ! i)
   \<and> ((\<forall>j<length expressionDetectors. (expressionDetectors ! j) face = None)
    \<longrightarrow> rawExpression face = \<lparr>category = neutral, confidence = 0\<rparr>)
   \<and> (k < length gestureDetectors \<and> (gestureDetectors ! k) hand = Some g
      \<and> (\<forall>j<k. (gestureDetectors ! j) hand = None)
    \<longrightarrow> rawGesture hand = g
        \<and> category g = [middleFinger, thumbsUp, thumbsDown, peace, ok, rockOn, pointing, wave,
                         fist] ! k)
   \<and> ((\<forall>j<length gestureDetectors. (gestureDetectors ! j) hand = None)
    \<longrightarrow> rawGesture hand = \<lparr>category = none, confidence = 0\<rparr>)"
proof (intro conjI impI)
  assume a: "i < length expressionDetectors \<and> (expressionDetectors ! i) face = Some r
      \<and> (\<forall>j<i. (expressionDetectors ! j) face = None)"
  then have "firstMatch expressionDetectors face = Some r"
    by (intro firstMatch_first [of i]) auto
  then show "rawExpression face = r" by (simp add: rawExpression_def)
  from a list_all2_nthD [OF expression_categories, of i]
  show "category r = [scream, shock, tongue, kissy, happy, wink, sad, glare, suspicious,
                         sleepy, eyebrow, pout, disgust, confused] ! i"
    by blast
next
  assume "\<forall>j<length expressionDetectors. (expressionDetectors ! j) face = None"
  then have "firstMatch expressionDetectors face = None"
    by (intro firstMatch_none) auto
  then show "rawExpression face = \<lparr>category = neutral, confidence = 0\<rparr>"
    by (simp add: rawExpression_def)
next
  assume a: "k < length gestureDetectors \<and> (gestureDetectors ! k) hand = Some g
      \<and> (\<forall>j<k. (gestureDetectors ! j) hand = None)"
  then have "firstMatch gestureDetectors hand = Some g"
    by (intro firstMatch_first [of k]) auto
  then show "rawGesture hand = g" by (simp add: rawGesture_def)
  from a list_all2_nthD [OF gesture_categories, of k]
  show "category g = [middleFinger, thumbsUp, thumbsDown, peace, ok, rockOn, pointing, wave,
                         fist] ! k"
    by blast
next
  assume "\<forall>j<length gestureDetectors. (gestureDetectors ! j) hand = None"
  then have "firstMatch gestureDetectors hand = None"
    by (intro firstMatch_none) auto
  then show "rawGesture hand = \<lparr>category = none, confidence = 0\<rparr>"
    by (simp add: rawGesture_def)
qed

text \<open>
  At \<open>glareFace\<close> the rules of glare and disgust both hold, at \<open>okWaveHand\<close> those of
  ok and wave: the earlier one is the raw result.
\<close>

lemma glareFace_detect:
  "detectScream glareFace = None" "detectShock glareFace = None" "detectTongue glareFace = None"
  "detectKissy glareFace = None" "detectHappy glareFace = None" "detectWink glareFace = None"
  "detectSad glareFace = None" "detectGlare glareFace = Some \<lparr>category = glare, confidence = 1\<rparr>"
  "detectDisgust glareFace = Some \<lparr>category = disgust, confidence = 1\<rparr>"
  by (simp_all add: expression_detector_defs face_defs glareFace_def createBaseLandmarks_def)

lemma okWaveHand_detect:
  "detectMiddleFinger okWaveHand = None" "detectThumbsUp okWaveHand = None"
  "detectThumbsDown okWaveHand = None" "detectPeace okWaveHand = None"
  "detectOK okWaveHand = Some \<lparr>category = ok, confidence = 0.85\<rparr>"
  "detectWave okWaveHand = Some \<lparr>category = wave, confidence = 0.8\<rparr>"
  by (simp_all add: gesture_detector_defs hand_defs okWaveHand_def createBaseLandmarks_def)

lemma less_7: "j < 7 \<Longrightarrow> j = 0 \<or> j = 1 \<or> j = 2 \<or> j = 3 \<or> j = 4 \<or> j = 5 \<or> j = (6::nat)"
  by arith

lemma less_4: "j < 4 \<Longrightarrow> j = 0 \<or> j = 1 \<or> j = 2 \<or> j = (3::nat)"
  by arith

theorem priority_order_witness:
  "detectGlare glareFace \<noteq> None \<and> detectDisgust glareFace \<noteq> None
   \<and> category (rawExpression glareFace) = glare
   \<and> detectOK okWaveHand \<noteq> None \<and> detectWave okWaveHand \<noteq> None
   \<and> category (rawGesture okWaveHand) = ok"
proof -
  have e: "\<forall>j<7. (expressionDetectors ! j) glareFace = None"
    using glareFace_detect by (auto dest!: less_7 simp: expressionDetectors_def)
  have g: "\<forall>j<4. (gestureDetectors ! j) okWaveHand = None"
    using okWaveHand_detect by (auto dest!: less_4 simp: gestureDetectors_def)
  have e7: "(expressionDetectors ! 7) glareFace = Some \<lparr>category = glare, confidence = 1\<rparr>"
    by (simp add: expressionDetectors_def glareFace_detect)
  have g4: "(gestureDetectors ! 4) okWaveHand = Some \<lparr>category = ok, confidence = 0.85\<rparr>"
    by (simp add: gestureDetectors_def okWaveHand_detect)
  have le: "7 < length expressionDetectors" "4 < length gestureDetectors"
    by (simp_all add: expressionDetectors_def gestureDetectors_def)
  from priority_order [of 7 glareFace "\<lparr>category = glare, confidence = 1\<rparr>" 4 okWaveHand
      "\<lparr>category = ok, confidence = 0.85\<rparr>"] e g e7 g4 le
  show ?thesis by (simp add: glareFace_detect okWaveHand_detect)
qed

section \<open>Landmark sets below the length guard\<close>

text \<open>
  Claim C3, as the code has it.  The guard of \<^verbatim>\<open>ExpressionDetector.analyze\<close> is
  \<^verbatim>\<open>landmarks.length < 468\<close>: a face set with fewer than 468 entries is answered
  with \<open>neutral\<close> at confidence 0, and a hand set with fewer than 21 entries with
  \<open>none\<close> at confidence 0, whatever the landmarks and the detector state are, so
  no rule takes part in the answer.
\<close>

theorem short_landmarks_default:
  "(length face < 468 \<longrightarrow>
      snd (ExpressionDetector_analyze d face now) = \<lparr>category = neutral, confidence = 0\<rparr>)
   \<and> (length hand < 21 \<longrightarrow>
      snd (GestureDetector_analyze g hand now') = \<lparr>category = none, confidence = 0\<rparr>)"
  by (simp add: ExpressionDetector_analyze_def GestureDetector_analyze_def)

theorem short_landmarks_default_witness:
  "length (createBaseLandmarks 467) < 468
   \<and> snd (ExpressionDetector_analyze ExpressionDetector_new (createBaseLandmarks 467) 1000)
       = \<lparr>category = neutral, confidence = 0\<rparr>
   \<and> length (createBaseLandmarks 20) < 21
   \<and> snd (GestureDetector_analyze GestureDetector_new (createBaseLandmarks 20) 1000)
       = \<lparr>category = none, confidence = 0\<rparr>"
  using short_landmarks_default [of "createBaseLandmarks 467" ExpressionDetector_new 1000
      "createBaseLandmarks 20" GestureDetector_new 1000]
  by (simp add: createBaseLandmarks_def)

text \<open>
  Claim C3 as stated puts the face threshold at 478.  A face set of 468 entries is
  below 478 but passes the guard: the rules are evaluated, the glare rule holds and the
  call returns confidence 1.
\<close>

lemma rawExpression_glareFace:
  "rawExpression glareFace = \<lparr>category = glare, confidence = 1\<rparr>"
  by (simp add: rawExpression_def expressionDetectors_def glareFace_detect)

lemma length_glareFace: "length glareFace = 468"
  by (simp add: glareFace_def createBaseLandmarks_def)

theorem face_468_evaluated:
  "length glareFace < 478
   \<and> snd (ExpressionDetector_analyze ExpressionDetector_new glareFace 1000)
       = \<lparr>category = neutral, confidence = 1\<rparr>"
  by (simp add: ExpressionDetector_analyze_def rawExpression_glareFace length_glareFace
      ExpressionDetector_new_def stabilize_def pushHistory_def smoothed_def counts_def
      transitions_defs Let_def)

text \<open>
  Claim C9.  A call with a landmark set below the guard (468 face entries, 21 hand
  entries) returns the detector exactly as it was: history, current and pending
  category and both time stamps.  The category it returns is the default one, not the
  detector's current category.
\<close>

theorem short_landmarks_state_unchanged:
  "(length face < 468 \<longrightarrow>
      fst (ExpressionDetector_analyze d face now) = d
      \<and> category (snd (ExpressionDetector_analyze d face now)) = neutral)
   \<and> (length hand < 21 \<longrightarrow>
      fst (GestureDetector_analyze g hand now') = g
      \<and> category (snd (GestureDetector_analyze g hand now')) = none)"
  by (simp add: ExpressionDetector_analyze_def GestureDetector_analyze_def)

text \<open>
  A detector whose current category is \<open>happy\<close> (resp. \<open>wave\<close>) answers a short
  frame with the default category and keeps \<open>happy\<close> (resp. \<open>wave\<close>) as its state.
\<close>

theorem short_landmarks_state_unchanged_witness:
  "length ([] :: Landmark list) < 468
   \<and> current (fst (ExpressionDetector_analyze
        \<lparr>history = [happy, happy], lastTime = 2000, current = happy, holdStartTime = 1500,
         pending = Some sad\<rparr> [] 3000)) = happy
   \<and> category (snd (ExpressionDetector_analyze
        \<lparr>history = [happy, happy], lastTime = 2000, current = happy, holdStartTime = 1500,
         pending = Some sad\<rparr> [] 3000)) = neutral
   \<and> length ([] :: Landmark list) < 21
   \<and> current (fst (GestureDetector_analyze
        \<lparr>history = [wave], lastTime = 2000, current = wave, holdStartTime = 1500,
         pending = None\<rparr> [] 3000)) = wave
   \<and> category (snd (GestureDetector_analyze
        \<lparr>history = [wave], lastTime = 2000, current = wave, holdStartTime = 1500,
         pending = None\<rparr> [] 3000)) = none"
  using short_landmarks_state_unchanged [of "[]"
      "\<lparr>history = [happy, happy], lastTime = 2000, current = happy, holdStartTime = 1500,
        pending = Some sad\<rparr>" 3000 "[]"
      "\<lparr>history = [wave], lastTime = 2000, current = wave, holdStartTime = 1500,
        pending = None\<rparr>" 3000]
  by simp

section \<open>Reset\<close>

text \<open>
  Claim C6.  \<^verbatim>\<open>reset()\<close> turns a detector in any state into the newly constructed
  one (empty history, no pending category, both time stamps 0, the default current
  category), so every sequence of \<^verbatim>\<open>analyze\<close> calls made after it returns the
  same results, and ends in the same state, as on a new detector.
\<close>

theorem reset_like_new:
  "ExpressionDetector_reset d = ExpressionDetector_new
   \<and> ExpressionDetector_results (ExpressionDetector_reset d) fs
       = ExpressionDetector_results ExpressionDetector_new fs
   \<and> ExpressionDetector_run (ExpressionDetector_reset d) fs
       = ExpressionDetector_run ExpressionDetector_new fs
   \<and> GestureDetector_reset g = GestureDetector_new
   \<and> GestureDetector_results (GestureDetector_reset g) hs
       = GestureDetector_results GestureDetector_new hs
   \<and> GestureDetector_run (GestureDetector_reset g) hs
       = GestureDetector_run GestureDetector_new hs"
proof -
  have e: "ExpressionDetector_reset d = ExpressionDetector_new"
    by (simp add: ExpressionDetector_reset_def ExpressionDetector_new_def)
  have h: "GestureDetector_reset g = GestureDetector_new"
    by (simp add: GestureDetector_reset_def GestureDetector_new_def)
  show ?thesis
    by (simp only: e h)
qed

section \<open>Range of the confidence\<close>

lemma disgustFace_detect:
  "map (\<lambda>detect. detect disgustFace) expressionDetectors
     = [None, None, None, None, None, None, None, None, None, None, None, None,
        Some \<lparr>category = disgust, confidence = 23 / 3\<rparr>, None]"
  by (simp add: expressionDetectors_def expression_detector_defs face_defs
      disgustFace_def createBaseLandmarks_def)

lemma rawExpression_disgustFace:
  "rawExpression disgustFace = \<lparr>category = disgust, confidence = 23 / 3\<rparr>"
  using disgustFace_detect by (simp add: rawExpression_def expressionDetectors_def)

lemma length_disgustFace: "length disgustFace = 468"
  by (simp add: disgustFace_def createBaseLandmarks_def)

text \<open>
  Claim C4 at \<open>disgustFace\<close>: eyes open by 0.02, the upper lip 0.2 above the nose tip
  in image coordinates.  Only the disgust rule holds; it returns
  \<^verbatim>\<open>1 - lipNoseDistance / 0.03\<close> without a bound, here 23/3, and \<^verbatim>\<open>analyze\<close> passes
  that on as the confidence of the frame.
\<close>

theorem disgust_confidence_above_one:
  "confidence (snd (ExpressionDetector_analyze ExpressionDetector_new disgustFace 1000)) = 23 / 3
   \<and> \<not> confidence (snd (ExpressionDetector_analyze ExpressionDetector_new disgustFace 1000)) \<le> 1"
  by (simp add: ExpressionDetector_analyze_def rawExpression_disgustFace length_disgustFace
      Let_def)

lemma getDistance_nonneg: "0 \<le> getDistance l i j"
  by (simp add: getDistance_def split: option.splits)

lemma getEyeOpening_nonneg: "0 \<le> getEyeOpening l"
  by (simp add: getEyeOpening_def Let_def getDistance_nonneg)

lemma eye_ratio_range:
  fixes a b :: real
  assumes "0 \<le> a" "0 \<le> b" "max a b \<noteq> 0"
  shows "0 \<le> min a b / max a b \<and> min a b / max a b \<le> 1"
proof -
  have "0 < max a b" using assms by (auto simp: max_def split: if_splits)
  moreover have "min a b \<le> max a b" by simp
  moreover have "0 \<le> min a b" using assms by simp
  ultimately show ?thesis by simp
qed

lemma firstMatch_member:
  "firstMatch ds l = Some r \<Longrightarrow> \<exists>d\<in>set ds. d l = Some r"
  by (induction ds) (auto split: option.splits)

lemma ratio_detectors_range:
  "detectScream l = Some r \<Longrightarrow> 0 \<le> confidence r \<and> confidence r \<le> 1"
  "detectShock l = Some r \<Longrightarrow> 0 \<le> confidence r \<and> confidence r \<le> 1"
  "detectTongue l = Some r \<Longrightarrow> 0 \<le> confidence r \<and> confidence r \<le> 1"
  "detectKissy l = Some r \<Longrightarrow> 0 \<le> confidence r \<and> confidence r \<le> 1"
  "detectHappy l = Some r \<Longrightarrow> 0 \<le> confidence r \<and> confidence r \<le> 1"
  "detectSad l = Some r \<Longrightarrow> 0 \<le> confidence r \<and> confidence r \<le> 1"
  "detectEyebrowRaise l = Some r \<Longrightarrow> 0 \<le> confidence r \<and> confidence r \<le> 1"
  "detectPout l = Some r \<Longrightarrow> 0 \<le> confidence r \<and> confidence r \<le> 1"
  "detectConfused l = Some r \<Longrightarrow> 0 \<le> confidence r \<and> confidence r \<le> 1"
  by (auto simp: expression_detector_defs thresholds_defs Let_def
      split: if_splits option.splits)

lemma glare_sleepy_range:
  "detectGlare l = Some r \<Longrightarrow> 0 \<le> confidence r \<and> confidence r \<le> 1"
  "detectSleepy l = Some r \<Longrightarrow> 0 \<le> confidence r \<and> confidence r \<le> 1"
  using getEyeOpening_nonneg [of l]
  by (auto simp: expression_detector_defs thresholds_defs Let_def split: if_splits)

lemma wink_suspicious_range:
  "detectWink l = Some r \<Longrightarrow> 0 \<le> confidence r \<and> confidence r \<le> 1"
  "detectSuspicious l = Some r \<Longrightarrow> 0 \<le> confidence r \<and> confidence r \<le> 1"
  using eye_ratio_range [of "getDistance l LEFT_EYE_TOP LEFT_EYE_BOTTOM"
      "getDistance l RIGHT_EYE_TOP RIGHT_EYE_BOTTOM"]
    getDistance_nonneg [of l LEFT_EYE_TOP LEFT_EYE_BOTTOM]
    getDistance_nonneg [of l RIGHT_EYE_TOP RIGHT_EYE_BOTTOM]
  by (auto simp: detectWink_def detectSuspicious_def getIndividualEyeOpenings_def
      thresholds_defs Let_def split: if_splits)

lemma disgust_category: "detectDisgust l = Some r \<Longrightarrow> category r = disgust"
  by (auto simp: detectDisgust_def Let_def split: if_splits option.splits)

lemma disgust_lower: "detectDisgust l = Some r \<Longrightarrow> 1 / 6 < confidence r"
  by (auto simp: detectDisgust_def Let_def split: if_splits option.splits)

lemma gesture_detectors_range:
  "d \<in> set gestureDetectors \<Longrightarrow> d h = Some r \<Longrightarrow> 0 \<le> confidence r \<and> confidence r \<le> 1"
  by (auto simp: gestureDetectors_def gesture_detector_defs Let_def
      split: if_splits option.splits)

text \<open>
  Every other rule keeps its confidence within \<open>[0, 1]\<close>, and so does every gesture
  rule; the disgust rule is bounded from below only.
\<close>

lemma confidence_range_except_disgust:
  "category (rawExpression l) \<noteq> disgust \<Longrightarrow>
     0 \<le> confidence (rawExpression l) \<and> confidence (rawExpression l) \<le> 1"
  "0 \<le> confidence (rawGesture h) \<and> confidence (rawGesture h) \<le> 1"
proof -
  show "0 \<le> confidence (rawGesture h) \<and> confidence (rawGesture h) \<le> 1"
  proof (cases "firstMatch gestureDetectors h")
    case None
    then show ?thesis by (simp add: rawGesture_def)
  next
    case (Some r)
    with firstMatch_member [of gestureDetectors h r] gesture_detectors_range [of _ h r]
    show ?thesis by (auto simp: rawGesture_def)
  qed
  assume nd: "category (rawExpression l) \<noteq> disgust"
  show "0 \<le> confidence (rawExpression l) \<and> confidence (rawExpression l) \<le> 1"
  proof (cases "firstMatch expressionDetectors l")
    case None
    then show ?thesis by (simp add: rawExpression_def)
  next
    case (Some r)
    then have raw: "rawExpression l = r" by (simp add: rawExpression_def)
    from firstMatch_member [OF Some] obtain d where
      d: "d \<in> set expressionDetectors" "d l = Some r" by blast
    have "d \<noteq> detectDisgust" using d(2) disgust_category [of l r] nd raw by auto
    with d have "0 \<le> confidence r \<and> confidence r \<le> 1"
      using ratio_detectors_range [of l r] glare_sleepy_range [of l r]
        wink_suspicious_range [of l r]
      by (auto simp: expressionDetectors_def)
    with raw show ?thesis by simp
  qed
qed

section \<open>Selection from the meme pool\<close>

lemma randomIndex_less:
  assumes "0 \<le> u" "u < 1" "0 < n"
  shows "randomIndex u n < n"
proof -
  have "u * real n < real n" using assms by simp
  then have "\<lfloor>u * real n\<rfloor> < int n" by (simp add: floor_less_iff)
  moreover have "0 \<le> \<lfloor>u * real n\<rfloor>" using assms by simp
  ultimately show ?thesis by (simp add: randomIndex_def nat_less_iff)
qed

lemma randomIndex_interval:
  assumes "0 \<le> u" "0 < n"
  shows "randomIndex u n = i \<longleftrightarrow> real i / real n \<le> u \<and> u < (real i + 1) / real n"
proof -
  have nn: "0 \<le> \<lfloor>u * real n\<rfloor>" using assms by simp
  have "randomIndex u n = i \<longleftrightarrow> \<lfloor>u * real n\<rfloor> = int i"
    using nn by (auto simp: randomIndex_def)
  also have "\<dots> \<longleftrightarrow> real i \<le> u * real n \<and> u * real n < real i + 1"
    by (auto simp: floor_eq_iff)
  also have "\<dots> \<longleftrightarrow> real i / real n \<le> u \<and> u < (real i + 1) / real n"
    using assms by (simp add: pos_divide_le_eq pos_less_divide_eq)
  finally show ?thesis .
qed

text \<open>
  Claim C8.  When the list of the requested category is empty (or the category has no
  list): if the list of \<open>neutral\<close> is not empty, \<^verbatim>\<open>getRandomMeme\<close> returns one of
  its members; if that list is empty too, it returns \<^verbatim>\<open>null\<close> (\<open>None\<close>), an ordinary
  result.
\<close>

theorem empty_pool_fallback:
  assumes "memePool type = None \<or> memePool type = Some []" and "0 \<le> u" and "u < 1"
  shows "(memePool ''neutral'' = Some neutralPool \<and> neutralPool \<noteq> []
            \<longrightarrow> (\<exists>a\<in>set neutralPool. fst (getRandomMeme memePool recentMemes type u) = Some a))
         \<and> (memePool ''neutral'' = None \<or> memePool ''neutral'' = Some []
            \<longrightarrow> fst (getRandomMeme memePool recentMemes type u) = None)"
proof (intro conjI impI)
  assume n: "memePool ''neutral'' = Some neutralPool \<and> neutralPool \<noteq> []"
  then have "randomIndex u (length neutralPool) < length neutralPool"
    using assms by (intro randomIndex_less) auto
  then have "neutralPool ! randomIndex u (length neutralPool) \<in> set neutralPool"
    by simp
  moreover have "fst (getRandomMeme memePool recentMemes type u)
      = Some (neutralPool ! randomIndex u (length neutralPool))"
    using assms(1) n by (auto simp: getRandomMeme_def)
  ultimately show "\<exists>a\<in>set neutralPool. fst (getRandomMeme memePool recentMemes type u) = Some a"
    by blast
next
  assume "memePool ''neutral'' = None \<or> memePool ''neutral'' = Some []"
  then show "fst (getRandomMeme memePool recentMemes type u) = None"
    using assms(1) by (auto simp: getRandomMeme_def)
qed

theorem empty_pool_fallback_witness:
  "emptyHappyPool ''happy'' = Some []
   \<and> (\<exists>a\<in>set [''larry.png'', ''calm.png'']. fst (getRandomMeme emptyHappyPool Map.empty ''happy'' 0.5) = Some a)
   \<and> emptyPool ''happy'' = Some [] \<and> emptyPool ''neutral'' = Some []
   \<and> fst (getRandomMeme emptyPool Map.empty ''happy'' 0.5) = None"
proof -
  have a: "emptyHappyPool ''happy'' = Some []" "emptyPool ''happy'' = Some []"
     "emptyPool ''neutral'' = Some []"
     "emptyHappyPool ''neutral'' = Some [''larry.png'', ''calm.png'']"
    by (simp_all add: emptyHappyPool_def emptyPool_def)
  have u: "(0::real) \<le> 0.5" "(0.5::real) < 1" by simp_all
  from empty_pool_fallback [of emptyHappyPool "''happy''" "0.5" "[''larry.png'', ''calm.png'']" Map.empty]
       empty_pool_fallback [of emptyPool "''happy''" "0.5" "[]" Map.empty] a u
  show ?thesis by simp
qed

text \<open>
  Claim C10.  A call that takes the fallback returns \<^verbatim>\<open>recentMemes\<close> as it was (no
  buffer is updated), its result does not depend on \<^verbatim>\<open>recentMemes\<close>, and with a
  non-empty neutral list the result is the entry of the whole list at index
  \<open>\<lfloor>u \<cdot> n\<rfloor>\<close>: entry \<open>i\<close> is picked exactly for \<open>u\<close> in \<open>[i / n, (i + 1) / n)\<close>, an
  interval of the same length for every entry.  Hence the same call made again with
  the same draw returns the same asset: nothing prevents an immediate repeat.
\<close>

theorem fallback_ignores_recent:
  assumes "memePool type = None \<or> memePool type = Some []"
  shows "snd (getRandomMeme memePool recentMemes type u) = recentMemes
     \<and> fst (getRandomMeme memePool recentMemes type u)
         = fst (getRandomMeme memePool recentMemes' type u)
     \<and> (memePool ''neutral'' = Some neutralPool \<and> neutralPool \<noteq> [] \<longrightarrow>
          fst (getRandomMeme memePool recentMemes type u)
            = Some (neutralPool ! randomIndex u (length neutralPool)))
     \<and> (0 \<le> u \<and> i < length neutralPool \<longrightarrow>
          (randomIndex u (length neutralPool) = i
             \<longleftrightarrow> real i / real (length neutralPool) \<le> u
                 \<and> u < (real i + 1) / real (length neutralPool)))
     \<and> fst (getRandomMeme memePool (snd (getRandomMeme memePool recentMemes type u)) type u)
         = fst (getRandomMeme memePool recentMemes type u)"
proof -
  have s: "snd (getRandomMeme memePool r type u) = r" for r
    using assms by (auto simp: getRandomMeme_def Let_def)
  have f: "fst (getRandomMeme memePool r type u) = fst (getRandomMeme memePool r' type u)" for r r'
    using assms by (auto simp: getRandomMeme_def Let_def)
  have n: "memePool ''neutral'' = Some neutralPool \<and> neutralPool \<noteq> [] \<longrightarrow>
          fst (getRandomMeme memePool recentMemes type u)
            = Some (neutralPool ! randomIndex u (length neutralPool))"
    using assms by (auto simp: getRandomMeme_def Let_def)
  have i: "0 \<le> u \<and> i < length neutralPool \<longrightarrow>
          (randomIndex u (length neutralPool) = i
             \<longleftrightarrow> real i / real (length neutralPool) \<le> u
                 \<and> u < (real i + 1) / real (length neutralPool))"
  proof
    assume h: "0 \<le> u \<and> i < length neutralPool"
    then have "0 < length neutralPool" by (cases neutralPool) auto
    with h show "randomIndex u (length neutralPool) = i
             \<longleftrightarrow> real i / real (length neutralPool) \<le> u
                 \<and> u < (real i + 1) / real (length neutralPool)"
      using randomIndex_interval [of u "length neutralPool" i] by blast
  qed
  show ?thesis using s f n i by metis
qed

theorem fallback_ignores_recent_witness:
  "emptyHappyPool ''happy'' = Some []
   \<and> snd (getRandomMeme emptyHappyPool [''neutral'' \<mapsto> [''calm.png'']] ''happy'' 0.5)
        = [''neutral'' \<mapsto> [''calm.png'']]
   \<and> fst (getRandomMeme emptyHappyPool [''neutral'' \<mapsto> [''calm.png'']] ''happy'' 0.5)
        = Some ''calm.png''
   \<and> fst (getRandomMeme emptyHappyPool
             (snd (getRandomMeme emptyHappyPool [''neutral'' \<mapsto> [''calm.png'']] ''happy'' 0.5))
             ''happy'' 0.5)
        = Some ''calm.png''
   \<and> randomIndex 0.5 (length [''larry.png'', ''calm.png'']) = 1"
proof -
  have a: "emptyHappyPool ''happy'' = Some []"
     "emptyHappyPool ''neutral'' = Some [''larry.png'', ''calm.png'']"
    by (simp_all add: emptyHappyPool_def)
  have r: "randomIndex (1 / 2) (Suc (Suc 0)) = Suc 0" by (simp add: randomIndex_def)
  from fallback_ignores_recent [of emptyHappyPool "''happy''" "[''neutral'' \<mapsto> [''calm.png'']]" "0.5"
       "[''neutral'' \<mapsto> [''calm.png'']]" "[''larry.png'', ''calm.png'']" 1] a r
  show ?thesis by simp
qed

section \<open>No repeat among the recent picks\<close>

lemma getRandomMeme_results_append:
  "getRandomMeme_results mp rm (xs @ ys)
     = getRandomMeme_results mp rm xs
         @ getRandomMeme_results mp (getRandomMeme_recent mp rm xs) ys"
  by (induction xs arbitrary: rm) auto

lemma getRandomMeme_recent_append:
  "getRandomMeme_recent mp rm (xs @ ys)
     = getRandomMeme_recent mp (getRandomMeme_recent mp rm xs) ys"
  by (induction xs arbitrary: rm) auto

lemma length_getRandomMeme_results [simp]:
  "length (getRandomMeme_results mp rm calls) = length calls"
  by (induction calls arbitrary: rm) auto

lemma getRandomMeme_picks_snoc:
  "getRandomMeme_picks mp rm c (calls @ [(ty, u)])
     = getRandomMeme_picks mp rm c calls
         @ (if ty = c then [fst (getRandomMeme mp (getRandomMeme_recent mp rm calls) ty u)]
            else [])"
  by (simp add: getRandomMeme_picks_def getRandomMeme_results_append)

lemma recentBuffer_length_step:
  assumes "length (recentBuffer rm t) \<le> RECENT_HISTORY_SIZE"
  shows "length (recentBuffer (snd (getRandomMeme mp rm ty u)) t) \<le> RECENT_HISTORY_SIZE"
  using assms
  by (auto simp: getRandomMeme_def recentBuffer_def Let_def RECENT_HISTORY_SIZE_def)

lemma recentBuffer_length_run:
  "length (recentBuffer rm t) \<le> RECENT_HISTORY_SIZE \<Longrightarrow>
     length (recentBuffer (getRandomMeme_recent mp rm calls) t) \<le> RECENT_HISTORY_SIZE"
  by (induction calls arbitrary: rm) (auto simp: recentBuffer_length_step)

lemma recentBuffer_other:
  "ty \<noteq> c \<Longrightarrow> recentBuffer (snd (getRandomMeme mp rm ty u)) c = recentBuffer rm c"
  by (auto simp: getRandomMeme_def recentBuffer_def Let_def)

lemma available_nonempty:
  assumes "4 \<le> card (set pool)" "length recent \<le> 3"
  shows "filter (\<lambda>m. m \<notin> set recent) pool \<noteq> []"
proof
  assume "filter (\<lambda>m. m \<notin> set recent) pool = []"
  then have "set pool \<subseteq> set recent" by (auto simp: filter_empty_conv)
  then have "card (set pool) \<le> card (set recent)" by (intro card_mono) auto
  also have "\<dots> \<le> length recent" by (rule card_length)
  finally show False using assms by simp
qed

lemma mem_filter_notin: "x \<in> set (filter (\<lambda>m. m \<notin> A) xs) \<Longrightarrow> x \<notin> A"
  by simp

lemma shift_eq_drop:
  assumes "length r \<le> 3"
  shows "(if length (r @ [p]) > RECENT_HISTORY_SIZE then tl (r @ [p]) else r @ [p])
     = drop (length r - 2) (r @ [p])"
proof (cases "length r = 3")
  case True
  then have "r \<noteq> []" by auto
  then have "tl (r @ [p]) = drop 1 (r @ [p])" by (cases r) simp_all
  with True show ?thesis by (simp add: RECENT_HISTORY_SIZE_def)
next
  case False
  with assms have "length r \<le> 2" by simp
  then show ?thesis by (simp add: RECENT_HISTORY_SIZE_def)
qed

lemma getRandomMeme_fresh:
  assumes pool: "mp c = Some pool" "4 \<le> card (set pool)"
    and len: "length (recentBuffer rm c) \<le> 3"
    and u: "0 \<le> u" "u < 1"
  shows "\<exists>p. fst (getRandomMeme mp rm c u) = Some p \<and> p \<notin> set (recentBuffer rm c)
           \<and> recentBuffer (snd (getRandomMeme mp rm c u)) c
               = drop (length (recentBuffer rm c) - 2) (recentBuffer rm c @ [p])"
proof -
  let ?recent = "recentBuffer rm c"
  let ?available = "filter (\<lambda>m. m \<notin> set ?recent) pool"
  let ?p = "?available ! randomIndex u (length ?available)"
  have ne: "?available \<noteq> []" using available_nonempty [OF pool(2) len] .
  then have "randomIndex u (length ?available) < length ?available"
    using u by (intro randomIndex_less) auto
  then have "?p \<in> set ?available" by (rule nth_mem)
  then have fresh: "?p \<notin> set ?recent" by (rule mem_filter_notin)
  have pne: "pool \<noteq> []" using pool(2) by auto
  have sel: "fst (getRandomMeme mp rm c u) = Some ?p"
    using pool(1) pne ne by (simp add: getRandomMeme_def Let_def)
  have buf: "recentBuffer (snd (getRandomMeme mp rm c u)) c
      = (if length (?recent @ [?p]) > RECENT_HISTORY_SIZE then tl (?recent @ [?p])
         else ?recent @ [?p])"
    using pool(1) pne ne by (simp add: getRandomMeme_def Let_def recentBuffer_def)
  have "(if length (?recent @ [?p]) > RECENT_HISTORY_SIZE then tl (?recent @ [?p])
         else ?recent @ [?p]) = drop (length ?recent - 2) (?recent @ [?p])"
    using len by (rule shift_eq_drop)
  with sel fresh buf show ?thesis by metis
qed


lemma distinct_window_snoc:
  assumes win: "\<forall>n. distinct (take 4 (drop n ps))"
    and fresh: "p \<notin> set (drop (length ps - 3) ps)"
  shows "distinct (take 4 (drop n (ps @ [p])))"
proof -
  consider (inside) "n + 4 \<le> length ps" | (edge) "n \<le> length ps" "length ps < n + 4"
    | (beyond) "length ps < n"
    by linarith
  then show ?thesis
  proof cases
    case inside
    then have "drop n (ps @ [p]) = drop n ps @ [p]" by simp
    moreover have "take 4 (drop n ps @ [p]) = take 4 (drop n ps)"
      using inside by simp
    ultimately show ?thesis using win by simp
  next
    case edge
    then have l: "length (drop n ps) \<le> 3" by simp
    have "distinct (take 4 (drop n ps))" using win by blast
    with l have d: "distinct (drop n ps)" by simp
    have "set (drop n ps) \<subseteq> set (drop (length ps - 3) ps)"
      using edge by (intro set_drop_subset_set_drop) simp
    with fresh have f: "p \<notin> set (drop n ps)" by blast
    have "drop n (ps @ [p]) = drop n ps @ [p]" using edge by simp
    moreover have "take 4 (drop n ps @ [p]) = drop n ps @ [p]" using l by simp
    ultimately show ?thesis using d f by simp
  next
    case beyond
    then show ?thesis by simp
  qed
qed

lemma distinct_window_3:
  "distinct (take 4 (drop n ps)) \<Longrightarrow> distinct (take 3 (drop n ps))"
  using distinct_take [of "take 4 (drop n ps)" 3] by (simp add: min_def)


lemma last3_snoc:
  "drop (length (drop (length P - 3) P) - 2) (drop (length P - 3) P @ [q])
     = drop (length (P @ [q]) - 3) (P @ [q])"
proof (cases "length P \<le> 2")
  case True
  then show ?thesis by simp
next
  case False
  then have "length P - 3 + 1 = length P - 2" "length P - 2 \<le> length P" by simp_all
  then show ?thesis using False by simp
qed

lemma picks_invariant:
  assumes pool: "mp c = Some pool" "4 \<le> card (set pool)"
  shows "(\<forall>call\<in>set calls. 0 \<le> snd call \<and> snd call < 1) \<Longrightarrow>
     (\<forall>n. distinct (take 4 (drop n (getRandomMeme_picks mp Map.empty c calls))))
     \<and> map Some (recentBuffer (getRandomMeme_recent mp Map.empty calls) c)
        = drop (length (getRandomMeme_picks mp Map.empty c calls) - 3)
            (getRandomMeme_picks mp Map.empty c calls)"
proof (induction calls rule: rev_induct)
  case Nil
  show ?case by (simp add: getRandomMeme_picks_def recentBuffer_def)
next
  case (snoc call calls)
  obtain ty u where call: "call = (ty, u)" by (cases call)
  let ?rm = "getRandomMeme_recent mp Map.empty calls"
  let ?P = "getRandomMeme_picks mp Map.empty c calls"
  from snoc have win: "\<forall>n. distinct (take 4 (drop n ?P))"
    and buf: "map Some (recentBuffer ?rm c) = drop (length ?P - 3) ?P"
    by simp_all
  have final: "getRandomMeme_recent mp Map.empty (calls @ [(ty, u)])
      = snd (getRandomMeme mp ?rm ty u)"
    by (simp add: getRandomMeme_recent_append)
  show ?case
  proof (cases "ty = c")
    case False
    then show ?thesis
      unfolding call
      using win buf by (simp add: getRandomMeme_picks_snoc final recentBuffer_other)
  next
    case True
    have len: "length (recentBuffer ?rm c) \<le> 3"
      using recentBuffer_length_run [of Map.empty c mp calls]
      by (simp add: recentBuffer_def RECENT_HISTORY_SIZE_def)
    have u: "0 \<le> u" "u < 1" using snoc.prems call by simp_all
    from getRandomMeme_fresh [of mp c pool ?rm u] pool len u obtain p where
      p: "fst (getRandomMeme mp ?rm c u) = Some p" "p \<notin> set (recentBuffer ?rm c)"
        "recentBuffer (snd (getRandomMeme mp ?rm c u)) c
           = drop (length (recentBuffer ?rm c) - 2) (recentBuffer ?rm c @ [p])"
      by blast
    have picks: "getRandomMeme_picks mp Map.empty c (calls @ [(c, u)]) = ?P @ [Some p]"
      using p(1) by (simp add: getRandomMeme_picks_snoc)
    have final': "getRandomMeme_recent mp Map.empty (calls @ [(c, u)])
        = snd (getRandomMeme mp ?rm c u)"
      by (simp add: getRandomMeme_recent_append)
    have "Some p \<notin> set (map Some (recentBuffer ?rm c))" using p(2) by auto
    then have fresh: "Some p \<notin> set (drop (length ?P - 3) ?P)" unfolding buf .
    have w: "\<forall>n. distinct (take 4 (drop n (?P @ [Some p])))"
      using distinct_window_snoc [OF win fresh] by blast
    have "map Some (recentBuffer (snd (getRandomMeme mp ?rm c u)) c)
        = drop (length (map Some (recentBuffer ?rm c)) - 2) (map Some (recentBuffer ?rm c) @ [Some p])"
      by (simp add: p(3) drop_map)
    also have "\<dots> = drop (length (?P @ [Some p]) - 3) (?P @ [Some p])"
      by (simp only: buf last3_snoc)
    finally have b': "map Some (recentBuffer (snd (getRandomMeme mp ?rm c u)) c)
        = drop (length (?P @ [Some p]) - 3) (?P @ [Some p])" .
    show ?thesis
      unfolding call True picks final' using w b' by blast
  qed
qed

text \<open>
  Claim C7, as the code has it.  The recent buffer is compared with the pool by value,
  so the pool must hold at least 4 different asset identifiers.  Then, with every
  draw \<open>u\<close> in \<open>[0, 1)\<close> and the calls for other categories interleaved at will,
  the results of the calls for this category are pairwise different within any 3
  consecutive ones (even any 4); no buffer ever holds more than
  \<open>RECENT_HISTORY_SIZE = 3\<close> entries; and the buffer of this category is the last 3
  results in their order, the oldest dropped first.
\<close>

theorem no_repeat_with_four_distinct:
  assumes "memePool type = Some pool" and "4 \<le> card (set pool)"
    and "\<forall>call\<in>set calls. 0 \<le> snd call \<and> snd call < 1"
  shows "(\<forall>n. distinct (take 3 (drop n (getRandomMeme_picks memePool Map.empty type calls))))
     \<and> (\<forall>n. distinct (take 4 (drop n (getRandomMeme_picks memePool Map.empty type calls))))
     \<and> (\<forall>t. length (recentBuffer (getRandomMeme_recent memePool Map.empty calls) t)
              \<le> RECENT_HISTORY_SIZE)
     \<and> map Some (recentBuffer (getRandomMeme_recent memePool Map.empty calls) type)
        = drop (length (getRandomMeme_picks memePool Map.empty type calls) - 3)
            (getRandomMeme_picks memePool Map.empty type calls)"
proof -
  from picks_invariant [of memePool type pool calls] assms
  have w: "\<forall>n. distinct (take 4 (drop n (getRandomMeme_picks memePool Map.empty type calls)))"
    and b: "map Some (recentBuffer (getRandomMeme_recent memePool Map.empty calls) type)
        = drop (length (getRandomMeme_picks memePool Map.empty type calls) - 3)
            (getRandomMeme_picks memePool Map.empty type calls)"
    by simp_all
  from w have w3: "\<forall>n. distinct (take 3 (drop n (getRandomMeme_picks memePool Map.empty type calls)))"
    using distinct_window_3 by blast
  have l: "\<forall>t. length (recentBuffer (getRandomMeme_recent memePool Map.empty calls) t)
              \<le> RECENT_HISTORY_SIZE"
    using recentBuffer_length_run [of Map.empty _ memePool calls]
    by (simp add: recentBuffer_def)
  from w3 w l b show ?thesis by blast
qed


lemmas pool_simps =
  getRandomMeme_picks_def getRandomMeme_def recentBuffer_def randomIndex_def
  RECENT_HISTORY_SIZE_def Let_def

theorem no_repeat_with_four_distinct_witness:
  "fourPool ''happy'' = Some [''a.png'', ''b.png'', ''c.png'', ''d.png'']
   \<and> 4 \<le> card (set [''a.png'', ''b.png'', ''c.png'', ''d.png''])
   \<and> getRandomMeme_picks fourPool Map.empty ''happy''
         [(''happy'', 0), (''happy'', 0), (''happy'', 0), (''happy'', 0), (''happy'', 0)]
       = [Some ''a.png'', Some ''b.png'', Some ''c.png'', Some ''d.png'', Some ''a.png'']
   \<and> distinct (take 3 (drop 2 (getRandomMeme_picks fourPool Map.empty ''happy''
         [(''happy'', 0), (''happy'', 0), (''happy'', 0), (''happy'', 0), (''happy'', 0)])))
   \<and> map Some (recentBuffer (getRandomMeme_recent fourPool Map.empty
         [(''happy'', 0), (''happy'', 0), (''happy'', 0), (''happy'', 0), (''happy'', 0)])
         ''happy'')
       = [Some ''c.png'', Some ''d.png'', Some ''a.png'']"
proof -
  let ?calls = "[(''happy'', 0), (''happy'', 0), (''happy'', 0), (''happy'', 0), (''happy'', 0)]
      :: (string \<times> real) list"
  have p: "fourPool ''happy'' = Some [''a.png'', ''b.png'', ''c.png'', ''d.png'']"
    by (simp add: fourPool_def)
  have c: "4 \<le> card (set [''a.png'', ''b.png'', ''c.png'', ''d.png''])"
    by simp
  have u: "\<forall>call\<in>set ?calls. 0 \<le> snd call \<and> snd call < 1"
    by simp
  have e: "getRandomMeme_picks fourPool Map.empty ''happy'' ?calls
       = [Some ''a.png'', Some ''b.png'', Some ''c.png'', Some ''d.png'', Some ''a.png'']"
    by (simp add: pool_simps fourPool_def)
  from no_repeat_with_four_distinct [of fourPool "''happy''"
      "[''a.png'', ''b.png'', ''c.png'', ''d.png'']" ?calls] p c u e
  show ?thesis by simp
qed

text \<open>
  Claim C7 as stated counts the members of the pool.  A pool that lists two assets
  twice each has 4 members; the third call finds both in the buffer, falls back to the
  whole pool and returns the asset of the first call again.
\<close>

theorem doubled_pool_repeats:
  "doubledPool ''happy'' = Some [''a.png'', ''b.png'', ''a.png'', ''b.png'']
   \<and> 4 \<le> length [''a.png'', ''b.png'', ''a.png'', ''b.png'']
   \<and> getRandomMeme_picks doubledPool Map.empty ''happy''
         [(''happy'', 0), (''happy'', 0), (''happy'', 0)]
       = [Some ''a.png'', Some ''b.png'', Some ''a.png'']
   \<and> \<not> distinct (take 3 (drop 0 (getRandomMeme_picks doubledPool Map.empty ''happy''
         [(''happy'', 0), (''happy'', 0), (''happy'', 0)])))"
  by (simp add: pool_simps doubledPool_def)

section \<open>Evaluating the example inputs\<close>

lemma rawGesture_fistHand: "rawGesture fistHand = \<lparr>category = fist, confidence = 0.8\<rparr>"
  by (simp add: rawGesture_def gestureDetectors_def gesture_detector_defs hand_defs
      fistHand_def createBaseLandmarks_def)

lemma rawGesture_peaceHand: "rawGesture peaceHand = \<lparr>category = peace, confidence = 0.85\<rparr>"
  by (simp add: rawGesture_def gestureDetectors_def gesture_detector_defs hand_defs
      peaceHand_def createBaseLandmarks_def)

lemma length_hands: "length fistHand = 21" "length peaceHand = 21"
  by (simp_all add: fistHand_def peaceHand_def createBaseLandmarks_def)

lemma GestureDetector_step_stabilize:
  "21 \<le> length hand \<Longrightarrow>
     GestureDetector_step d (hand, now) = stabilize d (category (rawGesture hand)) now"
  by (simp add: GestureDetector_step_def GestureDetector_analyze_def Let_def)

lemma ExpressionDetector_step_stabilize:
  "468 \<le> length face \<Longrightarrow>
     ExpressionDetector_step d (face, now) = stabilize d (category (rawExpression face)) now"
  by (simp add: ExpressionDetector_step_def ExpressionDetector_analyze_def Let_def)


section \<open>Hold time and debounce\<close>

lemma GestureDetector_step_stabStep:
  "GestureDetector_step d f
     = stabStep d (if length (fst f) < 21 then None else Some (category (rawGesture (fst f))))
         (snd f)"
  by (simp add: GestureDetector_step_def GestureDetector_analyze_def stabStep_def Let_def)

lemma ExpressionDetector_step_stabStep:
  "ExpressionDetector_step d f
     = stabStep d (if length (fst f) < 468 then None else Some (category (rawExpression (fst f))))
         (snd f)"
  by (simp add: ExpressionDetector_step_def ExpressionDetector_analyze_def stabStep_def Let_def)

lemma GestureDetector_before_Suc:
  "k < length fs \<Longrightarrow>
     GestureDetector_before fs (Suc k) = GestureDetector_step (GestureDetector_before fs k) (fs ! k)"
  by (simp add: GestureDetector_before_def GestureDetector_run_def take_Suc_conv_app_nth)

lemma ExpressionDetector_before_Suc:
  "k < length fs \<Longrightarrow>
     ExpressionDetector_before fs (Suc k)
       = ExpressionDetector_step (ExpressionDetector_before fs k) (fs ! k)"
  by (simp add: ExpressionDetector_before_def ExpressionDetector_run_def take_Suc_conv_app_nth)

lemma stabStep_switch:
  assumes "current (stabStep d r now) \<noteq> current d"
  shows "pending d = Some (current (stabStep d r now))
     \<and> transitions_holdTime \<le> now - holdStartTime d
     \<and> transitions_debounce \<le> now - lastTime d
     \<and> lastTime (stabStep d r now) = now"
  using assms
  by (cases r) (auto simp: stabStep_def stabilize_def Let_def split: if_splits)

lemma stabStep_no_switch:
  "current (stabStep d r now) = current d \<Longrightarrow> lastTime (stabStep d r now) = lastTime d"
  by (cases r) (auto simp: stabStep_def stabilize_def Let_def split: if_splits)

lemma stabStep_pending:
  assumes "pending (stabStep d r now) = Some v"
  shows "(pending d = Some v \<and> holdStartTime (stabStep d r now) = holdStartTime d)
     \<or> (pending d \<noteq> Some v \<and> holdStartTime (stabStep d r now) = now)"
  using assms
  by (cases r) (auto simp: stabStep_def stabilize_def Let_def split: if_splits)

lemma pending_since:
  assumes init: "pending (st 0) = None"
    and step: "\<And>k. k < n \<Longrightarrow> st (Suc k) = stabStep (st k) (r k) (t k)"
  shows "k \<le> n \<Longrightarrow> pending (st k) = Some v \<Longrightarrow>
     \<exists>i<k. pending (st i) \<noteq> Some v
        \<and> (\<forall>m. i < m \<and> m \<le> k \<longrightarrow> pending (st m) = Some v \<and> holdStartTime (st m) = t i)"
proof (induction k)
  case 0
  then show ?case using init by simp
next
  case (Suc k)
  have k: "k < n" using Suc.prems by simp
  from stabStep_pending [of "st k" "r k" "t k" v] Suc.prems(2) step [OF k]
  consider (old) "pending (st k) = Some v" "holdStartTime (st (Suc k)) = holdStartTime (st k)"
    | (new) "pending (st k) \<noteq> Some v" "holdStartTime (st (Suc k)) = t k"
    by auto
  then show ?case
  proof cases
    case old
    from Suc.IH [OF _ old(1)] k obtain i where i: "i < k" "pending (st i) \<noteq> Some v"
      "\<forall>m. i < m \<and> m \<le> k \<longrightarrow> pending (st m) = Some v \<and> holdStartTime (st m) = t i"
      by auto
    have "pending (st m) = Some v \<and> holdStartTime (st m) = t i"
      if "i < m \<and> m \<le> Suc k" for m
    proof (cases "m = Suc k")
      case True
      with i(1,3) old(2) Suc.prems(2) show ?thesis by auto
    next
      case False
      with that i(3) show ?thesis by auto
    qed
    with i(1,2) show ?thesis by (intro exI [of _ i]) auto
  next
    case new
    have "pending (st m) = Some v \<and> holdStartTime (st m) = t k"
      if "k < m \<and> m \<le> Suc k" for m
      using that new(2) Suc.prems(2) by (cases "m = Suc k") auto
    with new(1) show ?thesis by (intro exI [of _ k]) auto
  qed
qed

lemma last_switch_bound:
  assumes step: "\<And>k. k < n \<Longrightarrow> st (Suc k) = stabStep (st k) (r k) (t k)"
  shows "k \<le> n \<Longrightarrow>
     \<forall>m<k. current (st (Suc m)) \<noteq> current (st m) \<longrightarrow> t m \<le> lastTime (st k)"
proof (induction k)
  case 0
  then show ?case by simp
next
  case (Suc k)
  have k: "k < n" using Suc.prems by simp
  have IH: "\<forall>m<k. current (st (Suc m)) \<noteq> current (st m) \<longrightarrow> t m \<le> lastTime (st k)"
    using Suc.IH k by simp
  show ?case
  proof (cases "current (st (Suc k)) = current (st k)")
    case True
    then have "lastTime (st (Suc k)) = lastTime (st k)"
      using stabStep_no_switch [of "st k" "r k" "t k"] step [OF k] by simp
    with IH True show ?thesis by (auto simp: less_Suc_eq)
  next
    case False
    then have s: "transitions_debounce \<le> t k - lastTime (st k)" "lastTime (st (Suc k)) = t k"
      using stabStep_switch [of "st k" "r k" "t k"] step [OF k] by simp_all
    have "t m \<le> t k" if "m < k" "current (st (Suc m)) \<noteq> current (st m)" for m
      using IH that s(1) by (auto simp: transitions_defs)
    with s(2) show ?thesis by (auto simp: less_Suc_eq)
  qed
qed

lemma stabilizer_hold_debounce:
  assumes init: "pending (st 0) = None"
    and step: "\<And>k. k < n \<Longrightarrow> st (Suc k) = stabStep (st k) (r k) (t k)"
    and j: "j < n"
    and sw: "current (st (Suc j)) \<noteq> current (st j)"
  shows "(\<exists>i<j. pending (st i) \<noteq> Some (current (st (Suc j)))
          \<and> (\<forall>k. i < k \<and> k \<le> j \<longrightarrow>
                pending (st k) = Some (current (st (Suc j))) \<and> holdStartTime (st k) = t i)
          \<and> transitions_holdTime \<le> t j - t i)
       \<and> (\<forall>m<j. current (st (Suc m)) \<noteq> current (st m) \<longrightarrow> transitions_debounce \<le> t j - t m)"
proof -
  let ?v = "current (st (Suc j))"
  from stabStep_switch [of "st j" "r j" "t j"] sw step [OF j]
  have p: "pending (st j) = Some ?v"
    and h: "transitions_holdTime \<le> t j - holdStartTime (st j)"
    and b: "transitions_debounce \<le> t j - lastTime (st j)"
    by simp_all
  from pending_since [of st n r t j ?v, OF init step _ p] j
  obtain i where i: "i < j" "pending (st i) \<noteq> Some ?v"
    "\<forall>m. i < m \<and> m \<le> j \<longrightarrow> pending (st m) = Some ?v \<and> holdStartTime (st m) = t i"
    by auto
  from i(1,3) have "holdStartTime (st j) = t i" by simp
  with h have "transitions_holdTime \<le> t j - t i" by simp
  with i have first: "\<exists>i<j. pending (st i) \<noteq> Some ?v
          \<and> (\<forall>k. i < k \<and> k \<le> j \<longrightarrow> pending (st k) = Some ?v \<and> holdStartTime (st k) = t i)
          \<and> transitions_holdTime \<le> t j - t i"
    by blast
  have "\<forall>m<j. current (st (Suc m)) \<noteq> current (st m) \<longrightarrow> t m \<le> lastTime (st j)"
    using last_switch_bound [of n st r t j, OF step] j by simp
  with b have second: "\<forall>m<j. current (st (Suc m)) \<noteq> current (st m)
             \<longrightarrow> transitions_debounce \<le> t j - t m"
    by fastforce
  from first second show ?thesis by blast
qed

text \<open>
  Claim C2.  Take any sequence of \<^verbatim>\<open>analyze\<close> calls on a new detector of either
  class and a call \<open>j\<close> at which the current category changes.  Then the committed
  category became the pending one at an earlier call \<open>i\<close>, has been the pending one
  at every call since, with the hold timer still at the time of call \<open>i\<close>, and call
  \<open>j\<close> comes at least \<open>holdTime\<close> after call \<open>i\<close>; and call \<open>j\<close> comes at least
  \<open>debounce\<close> after every earlier call that changed the current category.
\<close>

theorem hold_and_debounce:
  "(j < length fs
      \<and> current (ExpressionDetector_before fs (Suc j)) \<noteq> current (ExpressionDetector_before fs j)
    \<longrightarrow> (\<exists>i<j. pending (ExpressionDetector_before fs i)
                   \<noteq> Some (current (ExpressionDetector_before fs (Suc j)))
             \<and> (\<forall>k. i < k \<and> k \<le> j \<longrightarrow>
                   pending (ExpressionDetector_before fs k)
                     = Some (current (ExpressionDetector_before fs (Suc j)))
                   \<and> holdStartTime (ExpressionDetector_before fs k) = snd (fs ! i))
             \<and> transitions_holdTime \<le> snd (fs ! j) - snd (fs ! i))
        \<and> (\<forall>m<j. current (ExpressionDetector_before fs (Suc m))
                     \<noteq> current (ExpressionDetector_before fs m)
               \<longrightarrow> transitions_debounce \<le> snd (fs ! j) - snd (fs ! m)))
   \<and> (n < length hs
      \<and> current (GestureDetector_before hs (Suc n)) \<noteq> current (GestureDetector_before hs n)
    \<longrightarrow> (\<exists>i<n. pending (GestureDetector_before hs i)
                   \<noteq> Some (current (GestureDetector_before hs (Suc n)))
             \<and> (\<forall>k. i < k \<and> k \<le> n \<longrightarrow>
                   pending (GestureDetector_before hs k)
                     = Some (current (GestureDetector_before hs (Suc n)))
                   \<and> holdStartTime (GestureDetector_before hs k) = snd (hs ! i))
             \<and> transitions_holdTime \<le> snd (hs ! n) - snd (hs ! i))
        \<and> (\<forall>m<n. current (GestureDetector_before hs (Suc m))
                     \<noteq> current (GestureDetector_before hs m)
               \<longrightarrow> transitions_debounce \<le> snd (hs ! n) - snd (hs ! m)))"
proof -
  have E: "(\<exists>i<j. pending (ExpressionDetector_before fs i)
                   \<noteq> Some (current (ExpressionDetector_before fs (Suc j)))
             \<and> (\<forall>k. i < k \<and> k \<le> j \<longrightarrow>
                   pending (ExpressionDetector_before fs k)
                     = Some (current (ExpressionDetector_before fs (Suc j)))
                   \<and> holdStartTime (ExpressionDetector_before fs k) = snd (fs ! i))
             \<and> transitions_holdTime \<le> snd (fs ! j) - snd (fs ! i))
        \<and> (\<forall>m<j. current (ExpressionDetector_before fs (Suc m))
                     \<noteq> current (ExpressionDetector_before fs m)
               \<longrightarrow> transitions_debounce \<le> snd (fs ! j) - snd (fs ! m))"
   if a: "j < length fs
      \<and> current (ExpressionDetector_before fs (Suc j)) \<noteq> current (ExpressionDetector_before fs j)"
  proof -
  have init: "pending (ExpressionDetector_before fs 0) = None"
    by (simp add: ExpressionDetector_before_def ExpressionDetector_run_def
        ExpressionDetector_new_def)
  have step: "ExpressionDetector_before fs (Suc k)
      = stabStep (ExpressionDetector_before fs k)
          (if length (fst (fs ! k)) < 468 then None
           else Some (category (rawExpression (fst (fs ! k)))))
          (snd (fs ! k))"
    if "k < length fs" for k
    using that by (simp only: ExpressionDetector_before_Suc ExpressionDetector_step_stabStep)
  from a show ?thesis
    by (intro stabilizer_hold_debounce [where n = "length fs" and t = "\<lambda>k. snd (fs ! k)",
          OF init step]) simp_all
  qed
  have G: "(\<exists>i<n. pending (GestureDetector_before hs i)
                   \<noteq> Some (current (GestureDetector_before hs (Suc n)))
             \<and> (\<forall>k. i < k \<and> k \<le> n \<longrightarrow>
                   pending (GestureDetector_before hs k)
                     = Some (current (GestureDetector_before hs (Suc n)))
                   \<and> holdStartTime (GestureDetector_before hs k) = snd (hs ! i))
             \<and> transitions_holdTime \<le> snd (hs ! n) - snd (hs ! i))
        \<and> (\<forall>m<n. current (GestureDetector_before hs (Suc m))
                     \<noteq> current (GestureDetector_before hs m)
               \<longrightarrow> transitions_debounce \<le> snd (hs ! n) - snd (hs ! m))"
   if a: "n < length hs
      \<and> current (GestureDetector_before hs (Suc n)) \<noteq> current (GestureDetector_before hs n)"
  proof -
  have init: "pending (GestureDetector_before hs 0) = None"
    by (simp add: GestureDetector_before_def GestureDetector_run_def GestureDetector_new_def)
  have step: "GestureDetector_before hs (Suc k)
      = stabStep (GestureDetector_before hs k)
          (if length (fst (hs ! k)) < 21 then None
           else Some (category (rawGesture (fst (hs ! k)))))
          (snd (hs ! k))"
    if "k < length hs" for k
    using that by (simp only: GestureDetector_before_Suc GestureDetector_step_stabStep)
  from a show ?thesis
    by (intro stabilizer_hold_debounce [where n = "length hs" and t = "\<lambda>k. snd (hs ! k)",
          OF init step]) simp_all
  qed
  from E G show ?thesis by blast
qed

lemma upt_27: "[0..<27] = [0,1,2,3,4,5,6,7,8,9,10,11,12,13,14,15,16,17,18,19,20,21,22,23,24,25,26]"
  by (simp add: upt_rec)

lemma upt_11: "[0..<11] = [0,1,2,3,4,5,6,7,8,9,10]"
  by (simp add: upt_rec)

lemma fistThenPeace_eq:
  "fistThenPeace =
     [(fistHand, 1000), (fistHand, 1033), (fistHand, 1066), (fistHand, 1099), (fistHand, 1132),
      (fistHand, 1165), (fistHand, 1198), (fistHand, 1231), (fistHand, 1264), (fistHand, 1297),
      (fistHand, 1330),
      (peaceHand, 1363), (peaceHand, 1396), (peaceHand, 1429), (peaceHand, 1462),
      (peaceHand, 1495), (peaceHand, 1528), (peaceHand, 1561), (peaceHand, 1594),
      (peaceHand, 1627), (peaceHand, 1660), (peaceHand, 1693), (peaceHand, 1726),
      (peaceHand, 1759), (peaceHand, 1792), (peaceHand, 1825), (peaceHand, 1858)]"
  by (simp add: fistThenPeace_def spacedFrames_def upt_27 nth_append)

lemma glareFrames_eq:
  "glareFrames =
     [(glareFace, 1000), (glareFace, 1033), (glareFace, 1066), (glareFace, 1099),
      (glareFace, 1132), (glareFace, 1165), (glareFace, 1198), (glareFace, 1231),
      (glareFace, 1264), (glareFace, 1297), (glareFace, 1330)]"
  by (simp add: glareFrames_def spacedFrames_def upt_11)

lemmas run_simps =
  GestureDetector_before_def GestureDetector_run_def GestureDetector_step_stabilize
  GestureDetector_new_def ExpressionDetector_before_def ExpressionDetector_run_def
  ExpressionDetector_step_stabilize ExpressionDetector_new_def
  stabilize_def pushHistory_def smoothed_def counts_def transitions_defs Let_def
  rawGesture_fistHand rawGesture_peaceHand length_hands rawExpression_glareFace length_glareFace

lemma fistThenPeace_states:
  "GestureDetector_before fistThenPeace 10 =
     \<lparr>history = [fist, fist, fist, fist, fist, fist, fist, fist, fist, fist],
      lastTime = 0, current = none, holdStartTime = 1000, pending = Some fist\<rparr>"
  "GestureDetector_before fistThenPeace 11 =
     \<lparr>history = [fist, fist, fist, fist, fist, fist, fist, fist, fist, fist],
      lastTime = 1330, current = fist, holdStartTime = 1000, pending = None\<rparr>"
  "GestureDetector_before fistThenPeace 26 =
     \<lparr>history = [peace, peace, peace, peace, peace, peace, peace, peace, peace, peace],
      lastTime = 1330, current = fist, holdStartTime = 1528, pending = Some peace\<rparr>"
  "GestureDetector_before fistThenPeace 27 =
     \<lparr>history = [peace, peace, peace, peace, peace, peace, peace, peace, peace, peace],
      lastTime = 1858, current = peace, holdStartTime = 1528, pending = None\<rparr>"
  unfolding fistThenPeace_eq by (simp_all add: run_simps)

lemma glareFrames_states:
  "ExpressionDetector_before glareFrames 10 =
     \<lparr>history = [glare, glare, glare, glare, glare, glare, glare, glare, glare, glare],
      lastTime = 0, current = neutral, holdStartTime = 1000, pending = Some glare\<rparr>"
  "ExpressionDetector_before glareFrames 11 =
     \<lparr>history = [glare, glare, glare, glare, glare, glare, glare, glare, glare, glare],
      lastTime = 1330, current = glare, holdStartTime = 1000, pending = None\<rparr>"
  unfolding glareFrames_eq by (simp_all add: run_simps)

theorem hold_and_debounce_witness:
  "10 < length glareFrames
   \<and> current (ExpressionDetector_before glareFrames 10) = neutral
   \<and> current (ExpressionDetector_before glareFrames 11) = glare
   \<and> (\<exists>i<10. transitions_holdTime \<le> snd (glareFrames ! 10) - snd (glareFrames ! i))
   \<and> 26 < length fistThenPeace
   \<and> current (GestureDetector_before fistThenPeace 10) = none
   \<and> current (GestureDetector_before fistThenPeace 11) = fist
   \<and> current (GestureDetector_before fistThenPeace 26) = fist
   \<and> current (GestureDetector_before fistThenPeace 27) = peace
   \<and> (\<exists>i<26. transitions_holdTime \<le> snd (fistThenPeace ! 26) - snd (fistThenPeace ! i))
   \<and> transitions_debounce \<le> snd (fistThenPeace ! 26) - snd (fistThenPeace ! 10)"
proof -
  have l: "10 < length glareFrames" "26 < length fistThenPeace"
    by (simp_all add: glareFrames_eq fistThenPeace_eq)
  have e: "current (ExpressionDetector_before glareFrames (Suc 10))
      \<noteq> current (ExpressionDetector_before glareFrames 10)"
    by (simp add: glareFrames_states)
  have g: "current (GestureDetector_before fistThenPeace (Suc 26))
      \<noteq> current (GestureDetector_before fistThenPeace 26)"
    by (simp add: fistThenPeace_states)
  have g': "current (GestureDetector_before fistThenPeace (Suc 10))
      \<noteq> current (GestureDetector_before fistThenPeace 10)"
    by (simp add: fistThenPeace_states)
  from hold_and_debounce [of 10 glareFrames 26 fistThenPeace] l e g
  have "\<exists>i<10. transitions_holdTime \<le> snd (glareFrames ! 10) - snd (glareFrames ! i)"
    and "\<exists>i<26. transitions_holdTime \<le> snd (fistThenPeace ! 26) - snd (fistThenPeace ! i)"
    and "\<forall>m<26. current (GestureDetector_before fistThenPeace (Suc m))
                     \<noteq> current (GestureDetector_before fistThenPeace m)
               \<longrightarrow> transitions_debounce \<le> snd (fistThenPeace ! 26) - snd (fistThenPeace ! m)"
    by blast+
  with g' l show ?thesis
    by (simp add: glareFrames_states fistThenPeace_states)
qed

section \<open>Alternating gestures\<close>

lemma smoothed_fist_peace:
  "smoothed [fist] = fist"
  "smoothed [fist, peace] = fist"
  "smoothed [fist, peace, fist] = fist"
  "smoothed [fist, peace, fist, peace] = fist"
  "smoothed [fist, peace, fist, peace, fist] = fist"
  "smoothed [fist, peace, fist, peace, fist, peace] = fist"
  "smoothed [fist, peace, fist, peace, fist, peace, fist] = fist"
  "smoothed [fist, peace, fist, peace, fist, peace, fist, peace] = fist"
  "smoothed [fist, peace, fist, peace, fist, peace, fist, peace, fist] = fist"
  "smoothed [fist, peace, fist, peace, fist, peace, fist, peace, fist, peace] = fist"
  "smoothed [peace, fist, peace, fist, peace, fist, peace, fist, peace, fist] = peace"
  by (simp_all add: smoothed_def counts_def)

lemma upt_20: "[0..<20] = [0,1,2,3,4,5,6,7,8,9,10,11,12,13,14,15,16,17,18,19]"
  by (simp add: upt_rec)

lemma alternating_20:
  "alternating a b 20 = [a, b, a, b, a, b, a, b, a, b, a, b, a, b, a, b, a, b, a, b]"
  by (simp add: alternating_def upt_20)

lemma length_20:
  assumes "length ts = 20"
  obtains t0 t1 t2 t3 t4 t5 t6 t7 t8 t9 t10 t11 t12 t13 t14 t15 t16 t17 t18 t19
  where "ts = [t0, t1, t2, t3, t4, t5, t6, t7, t8, t9, t10, t11, t12, t13, t14, t15, t16, t17,
    t18, t19]"
  using assms by (auto simp: eval_nat_numeral length_Suc_conv)

text \<open>
  Claim C1, as the code has it.  On a new \<^verbatim>\<open>GestureDetector\<close>, 20 calls that
  alternate between a hand classified as fist and a hand classified as peace, each at
  most 33 ms after the one before, all return the category \<open>none\<close>: the current
  category never leaves its initial value.  For the first ten frames the vote is a
  tie that the first-seen fist wins, so fist stays pending and its hold timer runs
  from the first frame; the tenth frame comes at most \<open>9 \<cdot> 33 = 297\<close> ms after it,
  less than \<open>holdTime\<close>.  From the eleventh frame on the winner of the tie alternates
  and the timer restarts at every call.
\<close>

theorem alternating_stays_none:
  fixes ts :: "int list"
  assumes "21 \<le> length fistLandmarks" and "21 \<le> length peaceLandmarks"
    and "category (rawGesture fistLandmarks) = fist"
    and "category (rawGesture peaceLandmarks) = peace"
    and "length ts = 20"
    and "\<forall>i<19. ts ! Suc i - ts ! i \<le> 33"
  shows "map category (GestureDetector_results GestureDetector_new
            (zip (alternating fistLandmarks peaceLandmarks 20) ts))
          = replicate 20 none"
proof -
  have r: "replicate 20 none = [none, none, none, none, none, none, none, none, none, none,
      none, none, none, none, none, none, none, none, none, none]"
    by (simp add: numeral_eq_Suc)
  from assms(5) obtain t0 t1 t2 t3 t4 t5 t6 t7 t8 t9 t10 t11 t12 t13 t14 t15 t16 t17 t18 t19
    where ts: "ts = [t0, t1, t2, t3, t4, t5, t6, t7, t8, t9, t10, t11, t12, t13, t14, t15, t16,
      t17, t18, t19]"
    by (rule length_20)
  have g: "t1 - t0 \<le> 33" "t2 - t1 \<le> 33" "t3 - t2 \<le> 33" "t4 - t3 \<le> 33"
    "t5 - t4 \<le> 33" "t6 - t5 \<le> 33" "t7 - t6 \<le> 33" "t8 - t7 \<le> 33" "t9 - t8 \<le> 33"
    using assms(6) [rule_format, of 0] assms(6) [rule_format, of 1]
      assms(6) [rule_format, of 2] assms(6) [rule_format, of 3] assms(6) [rule_format, of 4]
      assms(6) [rule_format, of 5] assms(6) [rule_format, of 6] assms(6) [rule_format, of 7]
      assms(6) [rule_format, of 8]
    by (simp_all add: ts)
  show ?thesis
    unfolding r alternating_20 ts using assms(1-4) g
    by (simp add: GestureDetector_analyze_def GestureDetector_step_stabilize
        GestureDetector_new_def stabilize_def pushHistory_def smoothed_fist_peace
        transitions_defs Let_def)
qed

text \<open>
  \<open>fistHand\<close> satisfies the fist rule only and \<open>peaceHand\<close> the peace rule only.
\<close>

lemma only_one_rule:
  "map (\<lambda>detect. detect fistHand) gestureDetectors
     = [None, None, None, None, None, None, None, None,
        Some \<lparr>category = fist, confidence = 0.8\<rparr>]"
  "map (\<lambda>detect. detect peaceHand) gestureDetectors
     = [None, None, None, Some \<lparr>category = peace, confidence = 0.85\<rparr>,
        None, None, None, None, None]"
  by (simp_all add: gestureDetectors_def gesture_detector_defs hand_defs fistHand_def
      peaceHand_def createBaseLandmarks_def)

theorem alternating_stays_none_witness:
  "21 \<le> length fistHand \<and> 21 \<le> length peaceHand
   \<and> category (rawGesture fistHand) = fist \<and> category (rawGesture peaceHand) = peace
   \<and> length every33ms = 20
   \<and> every33ms ! 1 - every33ms ! 0 \<le> 33 \<and> every33ms ! 19 - every33ms ! 18 \<le> 33
   \<and> map category (GestureDetector_results GestureDetector_new
         (zip (alternating fistHand peaceHand 20) every33ms))
       = replicate 20 none"
proof -
  have l: "length every33ms = 20" by (simp add: every33ms_def)
  have g: "\<forall>i<19. every33ms ! Suc i - every33ms ! i \<le> 33"
    by (simp add: every33ms_def All_less_Suc eval_nat_numeral)
  from alternating_stays_none [of fistHand peaceHand every33ms] l g
  show ?thesis
    by (simp add: rawGesture_fistHand rawGesture_peaceHand length_hands every33ms_def)
qed

text \<open>
  Claim C1 as stated asks for frames about 33 ms apart.  At 30 frames per second
  the clock readings are 33 or 34 ms apart and the tenth frame comes 300 ms after
  the first: fist, pending since the first frame, is committed there.
\<close>

theorem alternating_30fps_commits_fist:
  "map category (GestureDetector_results GestureDetector_new
         (zip (alternating fistHand peaceHand 20) thirtyFps))
       = [none, none, none, none, none, none, none, none, none,
          fist, fist, fist, fist, fist, fist, fist, fist, fist, fist, fist]"
  unfolding alternating_20 thirtyFps_def
  by (simp add: GestureDetector_analyze_def GestureDetector_step_stabilize
        GestureDetector_new_def stabilize_def pushHistory_def smoothed_fist_peace
        transitions_defs Let_def rawGesture_fistHand rawGesture_peaceHand length_hands)

end
